theory Spec2Isabelle
  imports Main "HOL-Library.AList" "HOL-Library.Char_ord" "HOL-Library.List_Lexorder"
begin

section \<open>Pipeline configuration helpers: variable resolution, diff and apply workflow\<close>

text \<open>
  A shallow embedding of \<^verbatim>\<open>commands/internal/setpipelinehelpers/atc_config.go\<close>.
  Byte slices are strings, Go maps are partial functions, a Go \<^verbatim>\<open>error\<close> is a value of
  the datatype \<open>error\<close>, and every collaborator the file calls (file system, YAML decoder,
  template libraries, team client, interactive prompt) is a field of the record \<open>world\<close>.
  Console output and calls on collaborators are collected in a list of events.
\<close>

subsection \<open>Errors, flags and variable sources\<close>

type_synonym bytes = string

datatype error =
    PipelineConfigError "string list"
  | DecodeError string
  | MissingVariableError "string list"
  | OtherError string

text \<open>\<^verbatim>\<open>flaghelpers.VariablePairFlag\<close>: the fields the file reads.\<close>

record ('v, 'w) VariablePairFlag =
  Name :: string
  Value :: 'v
  OldValue :: 'w

text \<open>\<^verbatim>\<open>template.StaticVariables\<close> and \<^verbatim>\<open>temp.Variables\<close>: Go maps from names to values.\<close>

type_synonym 'v Variables = "string \<rightharpoonup> 'v"

text \<open>
  Modelled from the spec: the lookup of \<^verbatim>\<open>template.NewMultiVars\<close>, which is not among the
  sources. The flag variables are the first element of the list built by
  \<^verbatim>\<open>resolveTemplates\<close> and have the highest precedence, so a key is looked up in the
  sources in list order and the first source that has it gives the value.
\<close>

fun MultiVars_Get :: "'v Variables list \<Rightarrow> string \<Rightarrow> 'v option" where
  "MultiVars_Get [] k = None"
| "MultiVars_Get (vars # varss) k =
     (case vars k of Some val \<Rightarrow> Some val | None \<Rightarrow> MultiVars_Get varss k)"

text \<open>
  Modelled from the spec: \<^verbatim>\<open>Variables.Merge\<close> of the legacy template package, which is not
  among the sources. Merge is a non-destructive key overwrite; the flag variables are
  merged last and win, so on a collision the value of the argument replaces the value of
  the receiver.
\<close>

definition Merge :: "'w Variables \<Rightarrow> 'w Variables \<Rightarrow> 'w Variables" where
  "Merge v other = v ++ other"

text \<open>
  The loops \<^verbatim>\<open>for _, f := range variables { flagVars[f.Name] = f.Value }\<close> of both
  resolvers: a later flag overwrites an earlier one of the same name.
\<close>

fun flagVars_loop :: "'v Variables \<Rightarrow> ('v, 'w) VariablePairFlag list \<Rightarrow> 'v Variables" where
  "flagVars_loop vars [] = vars"
| "flagVars_loop vars (f # fs) = flagVars_loop (vars(Name f \<mapsto> Value f)) fs"

fun oldFlagVars_loop :: "'w Variables \<Rightarrow> ('v, 'w) VariablePairFlag list \<Rightarrow> 'w Variables" where
  "oldFlagVars_loop vars [] = vars"
| "oldFlagVars_loop vars (f # fs) = oldFlagVars_loop (vars(Name f \<mapsto> OldValue f)) fs"

definition flagVars :: "('v, 'w) VariablePairFlag list \<Rightarrow> 'v Variables" where
  "flagVars variables = flagVars_loop Map.empty variables"

definition oldFlagVars :: "('v, 'w) VariablePairFlag list \<Rightarrow> 'w Variables" where
  "oldFlagVars variables = oldFlagVars_loop Map.empty variables"

text \<open>
  The loop of \<^verbatim>\<open>resolveTemplates\<close> over the payloads, from the last index down to 0.
  It is called on the reversed payload list; each decoded mapping is appended to
  \<open>vars\<close>, and the first payload that does not decode ends the function with its error.
\<close>

fun appendVars_loop ::
  "(bytes \<Rightarrow> error + 'v Variables) \<Rightarrow> 'v Variables list \<Rightarrow> bytes list \<Rightarrow> error + 'v Variables list"
where
  "appendVars_loop unmarshal vars [] = Inr vars"
| "appendVars_loop unmarshal vars (payload # payloads) =
     (case unmarshal payload of
        Inl err \<Rightarrow> Inl err
      | Inr staticVars \<Rightarrow> appendVars_loop unmarshal (vars @ [staticVars]) payloads)"

text \<open>The sources handed to \<^verbatim>\<open>template.NewMultiVars\<close> by \<^verbatim>\<open>resolveTemplates\<close>.\<close>

definition currentVars ::
  "(bytes \<Rightarrow> error + 'v Variables) \<Rightarrow> bytes list \<Rightarrow> ('v, 'w) VariablePairFlag list
     \<Rightarrow> error + 'v Variables list"
where
  "currentVars unmarshal paramPayloads variables =
     appendVars_loop unmarshal [flagVars variables] (rev paramPayloads)"

text \<open>
  The loop of \<^verbatim>\<open>resolveDeprecatedTemplateStyle\<close> over the payloads, in the order given:
  each decoded mapping is merged into \<open>vars\<close>.
\<close>

fun mergeVars_loop ::
  "(bytes \<Rightarrow> error + 'w Variables) \<Rightarrow> 'w Variables \<Rightarrow> bytes list \<Rightarrow> error + 'w Variables"
where
  "mergeVars_loop unmarshal vars [] = Inr vars"
| "mergeVars_loop unmarshal vars (payload # payloads) =
     (case unmarshal payload of
        Inl err \<Rightarrow> Inl err
      | Inr payloadVars \<Rightarrow> mergeVars_loop unmarshal (Merge vars payloadVars) payloads)"

text \<open>The variables handed to \<^verbatim>\<open>temp.Evaluate\<close> by \<^verbatim>\<open>resolveDeprecatedTemplateStyle\<close>.\<close>

definition legacyVars ::
  "(bytes \<Rightarrow> error + 'w Variables) \<Rightarrow> bytes list \<Rightarrow> ('v, 'w) VariablePairFlag list
     \<Rightarrow> error + 'w Variables"
where
  "legacyVars unmarshal paramPayloads variables =
     (case mergeVars_loop unmarshal Map.empty paramPayloads of
        Inl err \<Rightarrow> Inl err
      | Inr vars \<Rightarrow> Inr (Merge vars (oldFlagVars variables)))"

text \<open>
  In the words of the specification: the value of the earliest-listed source that has a
  key, the value of the latest-listed one, and the rule that the flag source is asked
  before the files.
\<close>

fun earliest :: "'v Variables list \<Rightarrow> string \<Rightarrow> 'v option" where
  "earliest [] k = None"
| "earliest (F # Fs) k = (case F k of Some val \<Rightarrow> Some val | None \<Rightarrow> earliest Fs k)"

definition latest :: "'v Variables list \<Rightarrow> string \<Rightarrow> 'v option" where
  "latest Fs k = earliest (rev Fs) k"

definition flags_then :: "'v Variables \<Rightarrow> (string \<Rightarrow> 'v option) \<Rightarrow> string \<Rightarrow> 'v option" where
  "flags_then G files k = (case G k of Some val \<Rightarrow> Some val | None \<Rightarrow> files k)"

subsection \<open>Collaborators\<close>

text \<open>Modelled from the spec: an entity of one of the four collections of a configuration,
  with its unique name and its opaque body.\<close>

record 'b Entity =
  entityName :: string
  entityBody :: 'b

text \<open>\<^verbatim>\<open>atc.Config\<close>: the four collections the file reads.\<close>

record 'b Config =
  Groups :: "'b Entity list"
  Resources :: "'b Entity list"
  ResourceTypes :: "'b Entity list"
  Jobs :: "'b Entity list"

text \<open>
  Everything outside the file that it calls. \<open>readFile\<close> is \<^verbatim>\<open>ioutil.ReadFile\<close>; the three
  \<open>unmarshal\<close> fields are \<^verbatim>\<open>yaml.Unmarshal\<close> at the three target types; \<open>Present\<close> and
  \<open>temp_Evaluate\<close> are the legacy template package; \<open>placeholders\<close> gives the names of the
  current-syntax placeholders of a document and \<open>interpolate\<close> the document the template
  library produces from a document and a lookup; \<open>PipelineConfig\<close> and
  \<open>CreateOrUpdatePipelineConfig\<close> are the team client, returning the values the file
  keeps; \<open>Resolve\<close> is the interactive prompt; \<open>pipelineURL\<close> is the URL of the request
  the web request generator creates for a pipeline and a team name, without user
  information; \<open>teamName\<close> is \<^verbatim>\<open>Team.Name()\<close>.
\<close>

record ('v, 'w, 'b) world =
  readFile :: "string \<Rightarrow> error + bytes"
  unmarshalVars :: "bytes \<Rightarrow> error + 'v Variables"
  unmarshalOldVars :: "bytes \<Rightarrow> error + 'w Variables"
  unmarshalConfig :: "bytes \<Rightarrow> error + 'b Config"
  Present :: "bytes \<Rightarrow> bool"
  temp_Evaluate :: "bytes \<Rightarrow> 'w Variables \<Rightarrow> error + bytes"
  placeholders :: "bytes \<Rightarrow> string list"
  interpolate :: "bytes \<Rightarrow> (string \<Rightarrow> 'v option) \<Rightarrow> bytes"
  PipelineConfig :: "string \<Rightarrow> 'b Config \<times> string \<times> error option"
  CreateOrUpdatePipelineConfig ::
    "string \<Rightarrow> string \<Rightarrow> bytes \<Rightarrow> bool \<times> bool \<times> string list \<times> error option"
  Resolve :: "string \<Rightarrow> error + bool"
  pipelineURL :: "string \<Rightarrow> string \<Rightarrow> string"
  teamName :: string

record ATCConfig =
  PipelineName :: string
  SkipInteraction :: bool

subsection \<open>Diff records and events\<close>

text \<open>Modelled from the spec: the record the diff engine emits for one name.\<close>

datatype 'b DiffRecord =
    Added "'b Entity"
  | Removed "'b Entity"
  | Changed string 'b 'b

text \<open>
  What a run does that can be observed: calls of the two resolvers with the document they
  are given, calls on the team client, lines printed, diff records rendered under a label,
  the error and warning blocks, the prompt, and the value \<^verbatim>\<open>ApplyConfigInteraction\<close>
  returned to \<^verbatim>\<open>Set\<close>.
\<close>

datatype 'b event =
    CallResolveDeprecatedTemplateStyle bytes
  | CallResolveTemplates bytes
  | CallPipelineConfig string
  | Println string
  | Render string "'b DiffRecord"
  | ShowPipelineConfigErrors "string list"
  | Prompt string
  | Confirmed bool
  | CallCreateOrUpdatePipelineConfig string string bytes
  | ShowWarnings "string list"

text \<open>
  Modelled from the spec: \<^verbatim>\<open>FailWithErrorf\<close> and \<^verbatim>\<open>Failf\<close> of the display helpers, which
  are not among the sources. They abort the whole resolution: the process ends with the
  message and the error, and no document is produced.
\<close>

datatype failure = Failure string error

datatype outcome = Returned "error option" | Exited failure | Panicked string

fun is_put :: "'b event \<Rightarrow> bool" where
  "is_put (CallCreateOrUpdatePipelineConfig n v d) = True"
| "is_put e = False"

subsection \<open>The confirmation gate\<close>

definition ApplyConfigInteraction :: "ATCConfig \<Rightarrow> ('v, 'w, 'b) world \<Rightarrow> 'b event list \<times> bool" where
  "ApplyConfigInteraction atcConfig w =
     (if SkipInteraction atcConfig then ([], True)
      else (case Resolve w ''apply configuration?'' of
              Inl err \<Rightarrow> ([Prompt ''apply configuration?''], False)
            | Inr confirm \<Rightarrow> ([Prompt ''apply configuration?''], confirm)))"

subsection \<open>Resolving the document\<close>

record EvaluateOpts =
  ExpectAllKeys :: bool

text \<open>
  Modelled from the spec: \<^verbatim>\<open>Template.Evaluate\<close> of the template library, which is not among
  the sources. In strict mode (\<open>ExpectAllKeys\<close>) it fails with the missing-variable error
  naming every placeholder that has no entry in the lookup; otherwise it gives the
  interpolated document.
\<close>

definition template_Evaluate ::
  "('v, 'w, 'b) world \<Rightarrow> bytes \<Rightarrow> 'v Variables list \<Rightarrow> EvaluateOpts \<Rightarrow> error + bytes"
where
  "template_Evaluate w configPayload varss opts =
     (let missing = filter (\<lambda>n. MultiVars_Get varss n = None) (placeholders w configPayload)
      in if ExpectAllKeys opts \<and> missing \<noteq> []
         then Inl (MissingVariableError (remdups missing))
         else Inr (interpolate w configPayload (MultiVars_Get varss)))"

definition resolveTemplates ::
  "('v, 'w, 'b) world \<Rightarrow> bytes \<Rightarrow> bytes list \<Rightarrow> ('v, 'w) VariablePairFlag list \<Rightarrow> error + bytes"
where
  "resolveTemplates w configPayload paramPayloads variables =
     (case currentVars (unmarshalVars w) paramPayloads variables of
        Inl err \<Rightarrow> Inl err
      | Inr vars \<Rightarrow>
          (case template_Evaluate w configPayload vars \<lparr>ExpectAllKeys = True\<rparr> of
             Inl err \<Rightarrow> Inl err
           | Inr bytes \<Rightarrow> Inr bytes))"

definition resolveDeprecatedTemplateStyle ::
  "('v, 'w, 'b) world \<Rightarrow> bytes \<Rightarrow> bytes list \<Rightarrow> ('v, 'w) VariablePairFlag list \<Rightarrow> error + bytes"
where
  "resolveDeprecatedTemplateStyle w configPayload paramPayloads variables =
     (case legacyVars (unmarshalOldVars w) paramPayloads variables of
        Inl err \<Rightarrow> Inl err
      | Inr vars \<Rightarrow> temp_Evaluate w configPayload vars)"

text \<open>The loop of \<^verbatim>\<open>newConfig\<close> that reads the variable files, in the order given.\<close>

fun readPayloads_loop ::
  "('v, 'w, 'b) world \<Rightarrow> bytes list \<Rightarrow> string list \<Rightarrow> failure + bytes list"
where
  "readPayloads_loop w paramPayloads [] = Inr paramPayloads"
| "readPayloads_loop w paramPayloads (path # paths) =
     (case readFile w path of
        Inl err \<Rightarrow> Inl (Failure (''could not read template variables file ('' @ path @ '')'') err)
      | Inr templateVars \<Rightarrow> readPayloads_loop w (paramPayloads @ [templateVars]) paths)"

text \<open>
  \<^verbatim>\<open>newConfig\<close> from the test for the legacy marker on: the documents are in hand, and the
  result is the events with either the failure the process exits with or the document.
\<close>

definition newConfig_current ::
  "('v, 'w, 'b) world \<Rightarrow> bytes \<Rightarrow> bytes list \<Rightarrow> ('v, 'w) VariablePairFlag list
     \<Rightarrow> 'b event list \<times> (failure + bytes)"
where
  "newConfig_current w evaluatedConfig paramPayloads templateVariables =
     (case resolveTemplates w evaluatedConfig paramPayloads templateVariables of
        Inl err \<Rightarrow>
          ([CallResolveTemplates evaluatedConfig],
           Inl (Failure ''could not resolve template vars'' err))
      | Inr resolved \<Rightarrow> ([CallResolveTemplates evaluatedConfig], Inr resolved))"

definition newConfig_evaluate ::
  "('v, 'w, 'b) world \<Rightarrow> bytes \<Rightarrow> bytes list \<Rightarrow> ('v, 'w) VariablePairFlag list
     \<Rightarrow> 'b event list \<times> (failure + bytes)"
where
  "newConfig_evaluate w evaluatedConfig paramPayloads templateVariables =
     (if Present w evaluatedConfig
      then (case resolveDeprecatedTemplateStyle w evaluatedConfig paramPayloads templateVariables of
              Inl err \<Rightarrow>
                ([CallResolveDeprecatedTemplateStyle evaluatedConfig],
                 Inl (Failure ''could not resolve old-style template vars'' err))
            | Inr intermediate \<Rightarrow>
                (case newConfig_current w intermediate paramPayloads templateVariables of
                   (evs, r) \<Rightarrow> (CallResolveDeprecatedTemplateStyle evaluatedConfig # evs, r)))
      else newConfig_current w evaluatedConfig paramPayloads templateVariables)"

definition newConfig ::
  "('v, 'w, 'b) world \<Rightarrow> string \<Rightarrow> string list \<Rightarrow> ('v, 'w) VariablePairFlag list
     \<Rightarrow> 'b event list \<times> (failure + bytes)"
where
  "newConfig w configPath templateVariablesFiles templateVariables =
     (case readFile w configPath of
        Inl err \<Rightarrow> ([], Inl (Failure ''could not read config file'' err))
      | Inr evaluatedConfig \<Rightarrow>
          (case readPayloads_loop w [] templateVariablesFiles of
             Inl f \<Rightarrow> ([], Inl f)
           | Inr paramPayloads \<Rightarrow>
               newConfig_evaluate w evaluatedConfig paramPayloads templateVariables))"

subsection \<open>The diff\<close>

text \<open>
  Modelled from the spec: the name-keyed index of a collection, which is not among the
  sources. It has one entry per distinct name, in the order of first occurrence, and a
  later entity of the same name replaces the earlier one.
\<close>

type_synonym 'b Index = "(string \<times> 'b Entity) list"

definition NamedEntityIndex :: "'b Entity list \<Rightarrow> 'b Index" where
  "NamedEntityIndex collection =
     foldl (\<lambda>index e. AList.update (entityName e) e index) [] collection"

text \<open>
  Modelled from the spec: the four index constructors \<^verbatim>\<open>diff\<close> calls, which are not among
  the sources. Each builds the name-keyed index of its collection.
\<close>

definition GroupIndex :: "'b Entity list \<Rightarrow> 'b Index" where
  "GroupIndex = NamedEntityIndex"

definition ResourceIndex :: "'b Entity list \<Rightarrow> 'b Index" where
  "ResourceIndex = NamedEntityIndex"

definition ResourceTypeIndex :: "'b Entity list \<Rightarrow> 'b Index" where
  "ResourceTypeIndex = NamedEntityIndex"

definition JobIndex :: "'b Entity list \<Rightarrow> 'b Index" where
  "JobIndex = NamedEntityIndex"

text \<open>
  Modelled from the spec: \<^verbatim>\<open>diffIndices\<close>, which is not among the sources. The removed
  entries come first, in their order in the existing index, then the added entries, in
  their order in the new index, then the changed entries by name.
\<close>

definition changedRecord :: "'b Index \<Rightarrow> string \<times> 'b Entity \<Rightarrow> 'b DiffRecord option" where
  "changedRecord newIndex p =
     (case map_of newIndex (fst p) of
        None \<Rightarrow> None
      | Some new \<Rightarrow>
          if entityBody (snd p) \<noteq> entityBody new
          then Some (Changed (fst p) (entityBody (snd p)) (entityBody new))
          else None)"

definition diffIndices :: "'b Index \<Rightarrow> 'b Index \<Rightarrow> 'b DiffRecord list" where
  "diffIndices existingIndex newIndex =
     map (\<lambda>p. Removed (snd p)) (filter (\<lambda>p. map_of newIndex (fst p) = None) existingIndex) @
     map (\<lambda>p. Added (snd p)) (filter (\<lambda>p. map_of existingIndex (fst p) = None) newIndex) @
     List.map_filter (changedRecord newIndex) (sort_key fst existingIndex)"

text \<open>One block of \<^verbatim>\<open>diff\<close>: the header line and the records, when there are any.\<close>

definition diff_section :: "string \<Rightarrow> string \<Rightarrow> 'b DiffRecord list \<Rightarrow> 'b event list" where
  "diff_section header label diffs =
     (if length diffs > 0 then Println header # map (Render label) diffs else [])"

definition diff :: "'b Config \<Rightarrow> 'b Config \<Rightarrow> 'b event list" where
  "diff existingConfig newConfig' =
     diff_section ''groups:'' ''group''
       (diffIndices (GroupIndex (Groups existingConfig)) (GroupIndex (Groups newConfig'))) @
     diff_section ''resources:'' ''resource''
       (diffIndices (ResourceIndex (Resources existingConfig)) (ResourceIndex (Resources newConfig'))) @
     diff_section ''resource types:'' ''resource type''
       (diffIndices (ResourceTypeIndex (ResourceTypes existingConfig))
          (ResourceTypeIndex (ResourceTypes newConfig'))) @
     diff_section ''jobs:'' ''job''
       (diffIndices (JobIndex (Jobs existingConfig)) (JobIndex (Jobs newConfig')))"

subsection \<open>The apply workflow\<close>

text \<open>The result is the lines printed and the message of the panic, if the function panics.\<close>

definition showHelpfulMessage ::
  "ATCConfig \<Rightarrow> ('v, 'w, 'b) world \<Rightarrow> bool \<Rightarrow> bool \<Rightarrow> 'b event list \<times> string option"
where
  "showHelpfulMessage atcConfig w created updated =
     (if updated then ([Println ''configuration updated''], None)
      else if created then
        ([Println ''pipeline created!'',
          Println (''you can view your pipeline here: '' @
                   pipelineURL w (PipelineName atcConfig) (teamName w)),
          Println [],
          Println ''the pipeline is currently paused. to unpause, either:'',
          Println ''  - run the unpause-pipeline command'',
          Println ''  - click play next to the pipeline in the web ui''], None)
      else ([], Some ''Something really went wrong!''))"

text \<open>The type test on the error of the fetch, at the start of \<^verbatim>\<open>Set\<close>.\<close>

fun fetchErrorMessages :: "error option \<Rightarrow> error + string list" where
  "fetchErrorMessages None = Inr []"
| "fetchErrorMessages (Some (PipelineConfigError errorMessages)) = Inr errorMessages"
| "fetchErrorMessages (Some err) = Inl err"

text \<open>\<^verbatim>\<open>Set\<close> from the call of \<^verbatim>\<open>ApplyConfigInteraction\<close> to its end.\<close>

definition Set_apply ::
  "ATCConfig \<Rightarrow> ('v, 'w, 'b) world \<Rightarrow> string \<Rightarrow> bytes \<Rightarrow> 'b event list \<times> outcome"
where
  "Set_apply atcConfig w existingConfigVersion newConfig' =
     (case ApplyConfigInteraction atcConfig w of
        (asked, ok) \<Rightarrow>
          if \<not> ok then (asked @ [Confirmed False, Println ''bailing out''], Returned None)
          else
            (case CreateOrUpdatePipelineConfig w (PipelineName atcConfig)
                    existingConfigVersion newConfig' of
               (created, updated, warnings, err) \<Rightarrow>
                 let put = CallCreateOrUpdatePipelineConfig (PipelineName atcConfig)
                             existingConfigVersion newConfig'
                 in (case err of
                       Some e \<Rightarrow> (asked @ [Confirmed True, put], Returned (Some e))
                     | None \<Rightarrow>
                         (case showHelpfulMessage atcConfig w created updated of
                            (printed, panic) \<Rightarrow>
                              (asked @ [Confirmed True, put] @
                               (if length warnings > 0 then [ShowWarnings warnings] else []) @
                               printed,
                               case panic of None \<Rightarrow> Returned None | Some m \<Rightarrow> Panicked m)))))"

text \<open>\<^verbatim>\<open>Set\<close> after \<^verbatim>\<open>newConfig\<close> has returned the new document.\<close>

definition Set_fetch ::
  "ATCConfig \<Rightarrow> ('v, 'w, 'b) world \<Rightarrow> bytes \<Rightarrow> 'b event list \<times> outcome"
where
  "Set_fetch atcConfig w newConfig' =
     (case PipelineConfig w (PipelineName atcConfig) of
        (existingConfig, existingConfigVersion, err) \<Rightarrow>
          (case fetchErrorMessages err of
             Inl e \<Rightarrow> ([CallPipelineConfig (PipelineName atcConfig)], Returned (Some e))
           | Inr errorMessages \<Rightarrow>
               (case unmarshalConfig w newConfig' of
                  Inl e \<Rightarrow> ([CallPipelineConfig (PipelineName atcConfig)], Returned (Some e))
                | Inr new \<Rightarrow>
                    (case Set_apply atcConfig w existingConfigVersion newConfig' of
                       (evs, r) \<Rightarrow>
                         (CallPipelineConfig (PipelineName atcConfig) #
                          diff existingConfig new @
                          (if length errorMessages > 0
                           then [ShowPipelineConfigErrors errorMessages] else []) @
                          evs, r)))))"

definition Set ::
  "ATCConfig \<Rightarrow> ('v, 'w, 'b) world \<Rightarrow> string \<Rightarrow> ('v, 'w) VariablePairFlag list \<Rightarrow> string list
     \<Rightarrow> 'b event list \<times> outcome"
where
  "Set atcConfig w configPath templateVariables templateVariablesFiles =
     (case newConfig w configPath templateVariablesFiles templateVariables of
        (resolving, Inl f) \<Rightarrow> (resolving, Exited f)
      | (resolving, Inr newConfig') \<Rightarrow>
          (case Set_fetch atcConfig w newConfig' of
             (evs, r) \<Rightarrow> (resolving @ evs, r)))"

subsection \<open>Notions used in the statements\<close>

text \<open>The name a diff record is about.\<close>

fun recordName :: "'b DiffRecord \<Rightarrow> string" where
  "recordName (Added e) = entityName e"
| "recordName (Removed e) = entityName e"
| "recordName (Changed n old new) = n"

text \<open>An index has one entry per name, and every entry is filed under its own name.\<close>

definition wf_index :: "'b Index \<Rightarrow> bool" where
  "wf_index index \<longleftrightarrow>
     distinct (map fst index) \<and> (\<forall>n e. map_of index n = Some e \<longrightarrow> entityName e = n)"

fun is_answer :: "'b event \<Rightarrow> bool" where
  "is_answer (Confirmed b) = True"
| "is_answer e = False"

text \<open>Events among which there is neither a put nor an answer of the confirmation gate.\<close>

definition plain :: "'b event list \<Rightarrow> bool" where
  "plain evs \<longleftrightarrow> (\<forall>e \<in> set evs. \<not> is_put e \<and> \<not> is_answer e)"

text \<open>The block of error messages of the existing configuration.\<close>

fun is_error_block :: "'b event \<Rightarrow> bool" where
  "is_error_block (ShowPipelineConfigErrors errorMessages) = True"
| "is_error_block e = False"

text \<open>The world in which the fetch returns the same configuration and version, and no error.\<close>

definition fetched_without_error ::
  "('v, 'w, 'b) world \<Rightarrow> 'b Config \<Rightarrow> string \<Rightarrow> ('v, 'w, 'b) world"
where
  "fetched_without_error w existingConfig version =
     w\<lparr>PipelineConfig := \<lambda>pipeline. (existingConfig, version, None)\<rparr>"

subsection \<open>A concrete world\<close>

text \<open>
  Two variable files, one flag, three documents and a team whose stored pipeline has one
  job. The decoders and the template functions are given on these inputs only.
\<close>

definition sample_flags :: "(string, string) VariablePairFlag list" where
  "sample_flags = [\<lparr>Name = ''region'', Value = ''eu'', OldValue = ''eu''\<rparr>]"

definition sample_file1 :: "string Variables" where
  "sample_file1 = [''env'' \<mapsto> ''staging'']"

definition sample_file2 :: "string Variables" where
  "sample_file2 = [''env'' \<mapsto> ''prod'', ''region'' \<mapsto> ''us'']"

definition sample_payloads :: "bytes list" where
  "sample_payloads = [''{env: staging}'', ''{env: prod, region: us}'']"

definition sample_unmarshal :: "bytes \<Rightarrow> error + string Variables" where
  "sample_unmarshal payload =
     (if payload = ''{env: staging}'' then Inr sample_file1
      else if payload = ''{env: prod, region: us}'' then Inr sample_file2
      else Inl (DecodeError payload))"

definition sample_readFile :: "string \<Rightarrow> error + bytes" where
  "sample_readFile path =
     (if path = ''pipeline.yml'' then Inr ''jobs: [{name: ((env))}]''
      else if path = ''legacy.yml'' then Inr ''jobs: [{name: {{env}}}]''
      else if path = ''strict.yml'' then Inr ''jobs: [{name: ((env))-((zone))}]''
      else if path = ''broken.yml'' then Inr ''jobs: 7''
      else if path = ''vars1.yml'' then Inr ''{env: staging}''
      else if path = ''vars2.yml'' then Inr ''{env: prod, region: us}''
      else Inl (OtherError ''no such file''))"

definition sample_existing :: "string Config" where
  "sample_existing =
     \<lparr>Groups = [], Resources = [], ResourceTypes = [],
      Jobs = [\<lparr>entityName = ''old'', entityBody = ''{}''\<rparr>]\<rparr>"

definition sample_new :: "string Config" where
  "sample_new =
     \<lparr>Groups = [], Resources = [], ResourceTypes = [],
      Jobs = [\<lparr>entityName = ''prod'', entityBody = ''{}''\<rparr>]\<rparr>"

definition sample_unmarshalConfig :: "bytes \<Rightarrow> error + string Config" where
  "sample_unmarshalConfig doc =
     (if doc = ''jobs: [{name: prod}]'' then Inr sample_new else Inl (DecodeError doc))"

definition sample_Present :: "bytes \<Rightarrow> bool" where
  "sample_Present doc = (doc = ''jobs: [{name: {{env}}}]'')"

definition sample_temp_Evaluate :: "bytes \<Rightarrow> string Variables \<Rightarrow> error + bytes" where
  "sample_temp_Evaluate doc vars =
     (if doc = ''jobs: [{name: {{env}}}]''
      then (case vars ''env'' of
              None \<Rightarrow> Inr doc
            | Some val \<Rightarrow> Inr (''jobs: [{name: '' @ val @ ''}]''))
      else Inr doc)"

definition sample_placeholders :: "bytes \<Rightarrow> string list" where
  "sample_placeholders doc =
     (if doc = ''jobs: [{name: ((env))}]'' then [''env'']
      else if doc = ''jobs: [{name: ((env))-((zone))}]'' then [''env'', ''zone'']
      else [])"

definition sample_interpolate :: "bytes \<Rightarrow> (string \<Rightarrow> string option) \<Rightarrow> bytes" where
  "sample_interpolate doc lookup =
     (if doc = ''jobs: [{name: ((env))}]''
      then (case lookup ''env'' of
              None \<Rightarrow> doc
            | Some val \<Rightarrow> ''jobs: [{name: '' @ val @ ''}]'')
      else doc)"

definition sample_PipelineConfig :: "string \<Rightarrow> string Config \<times> string \<times> error option" where
  "sample_PipelineConfig pipeline = (sample_existing, ''7'', None)"

definition invalid_PipelineConfig :: "string \<Rightarrow> string Config \<times> string \<times> error option" where
  "invalid_PipelineConfig pipeline =
     (sample_existing, ''7'', Some (PipelineConfigError [''unknown resource type'']))"

definition failing_PipelineConfig :: "string \<Rightarrow> string Config \<times> string \<times> error option" where
  "failing_PipelineConfig pipeline = (sample_existing, [], Some (OtherError ''connection refused''))"

definition sample_put ::
  "string \<Rightarrow> string \<Rightarrow> bytes \<Rightarrow> bool \<times> bool \<times> string list \<times> error option"
where
  "sample_put pipeline version doc = (False, True, [], None)"

definition neither_put ::
  "string \<Rightarrow> string \<Rightarrow> bytes \<Rightarrow> bool \<times> bool \<times> string list \<times> error option"
where
  "neither_put pipeline version doc = (False, False, [], None)"

definition both_put ::
  "string \<Rightarrow> string \<Rightarrow> bytes \<Rightarrow> bool \<times> bool \<times> string list \<times> error option"
where
  "both_put pipeline version doc = (True, True, [], None)"

definition answer_yes :: "string \<Rightarrow> error + bool" where
  "answer_yes question = Inr True"

definition answer_no :: "string \<Rightarrow> error + bool" where
  "answer_no question = Inr False"

definition answer_fails :: "string \<Rightarrow> error + bool" where
  "answer_fails question = Inl (OtherError ''EOF'')"

definition sample_pipelineURL :: "string \<Rightarrow> string \<Rightarrow> string" where
  "sample_pipelineURL pipeline team = ''https://ci/teams/'' @ team @ ''/pipelines/'' @ pipeline"

definition sample_world :: "(string, string, string) world" where
  "sample_world =
     \<lparr>readFile = sample_readFile,
      unmarshalVars = sample_unmarshal,
      unmarshalOldVars = sample_unmarshal,
      unmarshalConfig = sample_unmarshalConfig,
      Present = sample_Present,
      temp_Evaluate = sample_temp_Evaluate,
      placeholders = sample_placeholders,
      interpolate = sample_interpolate,
      PipelineConfig = sample_PipelineConfig,
      CreateOrUpdatePipelineConfig = sample_put,
      Resolve = answer_yes,
      pipelineURL = sample_pipelineURL,
      teamName = ''main''\<rparr>"

definition invalid_world :: "(string, string, string) world" where
  "invalid_world = sample_world\<lparr>PipelineConfig := invalid_PipelineConfig\<rparr>"

definition failing_world :: "(string, string, string) world" where
  "failing_world = sample_world\<lparr>PipelineConfig := failing_PipelineConfig\<rparr>"

definition declining_world :: "(string, string, string) world" where
  "declining_world = sample_world\<lparr>Resolve := answer_no\<rparr>"

definition silent_world :: "(string, string, string) world" where
  "silent_world = sample_world\<lparr>Resolve := answer_fails\<rparr>"

definition neither_world :: "(string, string, string) world" where
  "neither_world = sample_world\<lparr>CreateOrUpdatePipelineConfig := neither_put\<rparr>"

definition both_world :: "(string, string, string) world" where
  "both_world = sample_world\<lparr>CreateOrUpdatePipelineConfig := both_put\<rparr>"

definition sample_atc :: ATCConfig where
  "sample_atc = \<lparr>PipelineName = ''demo'', SkipInteraction = False\<rparr>"

definition skipping_atc :: ATCConfig where
  "skipping_atc = \<lparr>PipelineName = ''demo'', SkipInteraction = True\<rparr>"

definition sample_resources :: "string Entity list" where
  "sample_resources =
     [\<lparr>entityName = ''c'', entityBody = ''git''\<rparr>,
      \<lparr>entityName = ''a'', entityBody = ''git''\<rparr>,
      \<lparr>entityName = ''e'', entityBody = ''git''\<rparr>,
      \<lparr>entityName = ''b'', entityBody = ''git''\<rparr>]"

definition sample_resources' :: "string Entity list" where
  "sample_resources' =
     [\<lparr>entityName = ''b'', entityBody = ''git''\<rparr>,
      \<lparr>entityName = ''c'', entityBody = ''s3''\<rparr>,
      \<lparr>entityName = ''d'', entityBody = ''s3''\<rparr>,
      \<lparr>entityName = ''a'', entityBody = ''time''\<rparr>]"

section \<open>Variable precedence\<close>

text \<open>The flag variables give a name the value of the last flag of that name.\<close>

lemma flagVars_loop_last:
  "flagVars_loop m variables k =
     (case map_of (rev (map (\<lambda>f. (Name f, Value f)) variables)) k of
        Some val \<Rightarrow> Some val | None \<Rightarrow> m k)"
  by (induction variables arbitrary: m)
     (auto simp: map_of_append map_add_def split: option.splits)

lemma flagVars_last:
  "flagVars variables k = map_of (rev (map (\<lambda>f. (Name f, Value f)) variables)) k"
  by (simp add: flagVars_def flagVars_loop_last split: option.splits)

lemma oldFlagVars_loop_last:
  "oldFlagVars_loop m variables k =
     (case map_of (rev (map (\<lambda>f. (Name f, OldValue f)) variables)) k of
        Some val \<Rightarrow> Some val | None \<Rightarrow> m k)"
  by (induction variables arbitrary: m)
     (auto simp: map_of_append map_add_def split: option.splits)

lemma oldFlagVars_last:
  "oldFlagVars variables k = map_of (rev (map (\<lambda>f. (Name f, OldValue f)) variables)) k"
  by (simp add: oldFlagVars_def oldFlagVars_loop_last split: option.splits)

lemma appendVars_loop_decoded:
  "map unmarshal payloads = map Inr Fs \<Longrightarrow>
   appendVars_loop unmarshal vars payloads = Inr (vars @ Fs)"
  by (induction payloads arbitrary: vars Fs) auto

lemma MultiVars_Get_earliest: "MultiVars_Get varss k = earliest varss k"
  by (induction varss) (auto split: option.splits)

lemma earliest_append:
  "earliest (Fs @ Gs) k = (case earliest Fs k of Some v \<Rightarrow> Some v | None \<Rightarrow> earliest Gs k)"
  by (induction Fs) (auto split: option.splits)

lemma mergeVars_loop_decoded:
  "map unmarshal payloads = map Inr Fs \<Longrightarrow>
   mergeVars_loop unmarshal vars payloads = Inr (foldl Merge vars Fs)"
  by (induction payloads arbitrary: vars Fs) auto

lemma foldl_Merge_latest:
  "foldl Merge vars Fs k = (case latest Fs k of Some v \<Rightarrow> Some v | None \<Rightarrow> vars k)"
  by (induction Fs arbitrary: vars)
     (auto simp: latest_def earliest_append Merge_def map_add_def split: option.splits)

lemma currentVars_decoded:
  assumes "map unmarshal paramPayloads = map Inr Fs"
  shows "currentVars unmarshal paramPayloads variables = Inr (flagVars variables # rev Fs)"
proof -
  from assms have "map unmarshal (rev paramPayloads) = map Inr (rev Fs)"
    by (simp add: rev_map [symmetric])
  then show ?thesis
    unfolding currentVars_def by (simp add: appendVars_loop_decoded)
qed

lemma legacyVars_decoded:
  assumes "map unmarshal paramPayloads = map Inr Fs"
  shows "legacyVars unmarshal paramPayloads variables =
           Inr (Merge (foldl Merge Map.empty Fs) (oldFlagVars variables))"
  unfolding legacyVars_def by (simp add: mergeVars_loop_decoded [OF assms])

lemma MultiVars_Get_flags_latest:
  "MultiVars_Get (G # rev Fs) k = flags_then G (latest Fs) k"
  by (simp add: MultiVars_Get_earliest flags_then_def latest_def split: option.splits)

lemma Merge_flags_latest:
  "Merge (foldl Merge Map.empty Fs) G k = flags_then G (latest Fs) k"
  by (simp add: Merge_def map_add_def flags_then_def foldl_Merge_latest split: option.splits)

text \<open>
  Claim C1, as the code has it. When every variable file decodes, the lookup handed to
  the current evaluator and the variables handed to the legacy evaluator both give a key
  the value of the flags when a flag has that name, and otherwise the value of the
  latest-listed file that has the key: flags have the highest precedence, and a
  later-listed file overrides an earlier-listed one.
\<close>

theorem later_files_override_earlier:
  assumes "map unmarshal paramPayloads = map Inr Fs"
      and "map unmarshalOld paramPayloads = map Inr Fs'"
  shows "(\<exists>varss. currentVars unmarshal paramPayloads variables = Inr varss \<and>
            (\<forall>k. MultiVars_Get varss k = flags_then (flagVars variables) (latest Fs) k)) \<and>
         (\<exists>vars. legacyVars unmarshalOld paramPayloads variables = Inr vars \<and>
            (\<forall>k. vars k = flags_then (oldFlagVars variables) (latest Fs') k))"
  unfolding currentVars_decoded [OF assms(1)] legacyVars_decoded [OF assms(2)]
  by (simp add: MultiVars_Get_flags_latest Merge_flags_latest del: MultiVars_Get.simps)

theorem later_files_override_earlier_witness:
  "map sample_unmarshal sample_payloads = map Inr [sample_file1, sample_file2] \<and>
   (\<exists>varss. currentVars sample_unmarshal sample_payloads sample_flags = Inr varss \<and>
      MultiVars_Get varss ''env'' = Some ''prod'' \<and>
      MultiVars_Get varss ''region'' = Some ''eu'') \<and>
   (\<exists>vars. legacyVars sample_unmarshal sample_payloads sample_flags = Inr vars \<and>
      vars ''env'' = Some ''prod'' \<and> vars ''region'' = Some ''eu'')"
proof -
  have h: "map sample_unmarshal sample_payloads = map Inr [sample_file1, sample_file2]"
    by (simp add: sample_payloads_def sample_unmarshal_def)
  have env: "flags_then (flagVars sample_flags) (latest [sample_file1, sample_file2]) ''env'' =
      Some ''prod''"
    by (simp add: flags_then_def flagVars_def latest_def sample_flags_def sample_file1_def
          sample_file2_def)
  have region: "flags_then (flagVars sample_flags) (latest [sample_file1, sample_file2]) ''region'' =
      Some ''eu''"
    by (simp add: flags_then_def flagVars_def sample_flags_def)
  have env': "flags_then (oldFlagVars sample_flags) (latest [sample_file1, sample_file2]) ''env'' =
      Some ''prod''"
    by (simp add: flags_then_def oldFlagVars_def latest_def sample_flags_def sample_file1_def
          sample_file2_def)
  have region': "flags_then (oldFlagVars sample_flags) (latest [sample_file1, sample_file2]) ''region'' =
      Some ''eu''"
    by (simp add: flags_then_def oldFlagVars_def sample_flags_def)
  from later_files_override_earlier [OF h h, of sample_flags]
  obtain varss vars
    where "currentVars sample_unmarshal sample_payloads sample_flags = Inr varss"
      and "\<And>k. MultiVars_Get varss k =
             flags_then (flagVars sample_flags) (latest [sample_file1, sample_file2]) k"
      and "legacyVars sample_unmarshal sample_payloads sample_flags = Inr vars"
      and "\<And>k. vars k =
             flags_then (oldFlagVars sample_flags) (latest [sample_file1, sample_file2]) k"
    by blast
  with h env region env' region' show ?thesis
    by simp
qed

text \<open>
  Claim C1 as stated fails: with the files \<open>{env: staging}\<close> and \<open>{env: prod, region: us}\<close>,
  in this order, and the flag \<open>region=eu\<close>, no flag is named \<open>env\<close> and the
  earliest-listed file that has \<open>env\<close> gives \<open>staging\<close>, but both lookups give \<open>prod\<close>.
\<close>

theorem earliest_file_does_not_win:
  "map sample_unmarshal sample_payloads = map Inr [sample_file1, sample_file2] \<and>
   flags_then (flagVars sample_flags) (earliest [sample_file1, sample_file2]) ''env'' =
     Some ''staging'' \<and>
   flags_then (oldFlagVars sample_flags) (earliest [sample_file1, sample_file2]) ''env'' =
     Some ''staging'' \<and>
   MultiVars_Get (projr (currentVars sample_unmarshal sample_payloads sample_flags)) ''env'' =
     Some ''prod'' \<and>
   projr (legacyVars sample_unmarshal sample_payloads sample_flags) ''env'' = Some ''prod''"
  by (simp add: sample_payloads_def sample_unmarshal_def sample_flags_def sample_file1_def
        sample_file2_def flags_then_def flagVars_def oldFlagVars_def currentVars_def
        legacyVars_def Merge_def)

section \<open>Resolving the document\<close>

lemmas sample_simps =
  sample_world_def sample_readFile_def sample_unmarshal_def sample_unmarshalConfig_def
  sample_Present_def sample_temp_Evaluate_def sample_placeholders_def sample_interpolate_def
  sample_PipelineConfig_def sample_put_def answer_yes_def sample_pipelineURL_def
  sample_flags_def sample_file1_def sample_file2_def sample_payloads_def sample_atc_def
  sample_existing_def sample_new_def

lemmas resolve_simps =
  newConfig_def newConfig_evaluate_def newConfig_current_def resolveTemplates_def
  resolveDeprecatedTemplateStyle_def template_Evaluate_def currentVars_def legacyVars_def
  flagVars_def oldFlagVars_def Merge_def

lemma fst_newConfig_current:
  "fst (newConfig_current w doc paramPayloads templateVariables) = [CallResolveTemplates doc]"
  by (simp add: newConfig_current_def split: sum.splits)

text \<open>
  Claim C2. Once the configuration file and the variable files are read, \<^verbatim>\<open>newConfig\<close>
  calls \<^verbatim>\<open>resolveDeprecatedTemplateStyle\<close> if and only if the legacy marker is present in
  the document read. When the legacy resolver returns a document, \<^verbatim>\<open>resolveTemplates\<close>, the
  strict resolver, is called next on that document, and what \<^verbatim>\<open>newConfig\<close> gives is what
  \<^verbatim>\<open>resolveTemplates\<close> returns for it: its document, or the exit with its error. When the
  legacy resolver fails, the run ends with its error. Without the marker
  \<^verbatim>\<open>resolveTemplates\<close> alone is called, on the document read, and decides the result in the
  same way.
\<close>

theorem newConfig_evaluator_order:
  assumes "readFile w configPath = Inr doc"
      and "readPayloads_loop w [] templateVariablesFiles = Inr paramPayloads"
  shows "((\<exists>d. CallResolveDeprecatedTemplateStyle d \<in>
              set (fst (newConfig w configPath templateVariablesFiles templateVariables)))
            \<longleftrightarrow> Present w doc) \<and>
         (Present w doc \<longrightarrow>
            (\<forall>intermediate.
               resolveDeprecatedTemplateStyle w doc paramPayloads templateVariables =
                 Inr intermediate \<longrightarrow>
               newConfig w configPath templateVariablesFiles templateVariables =
                 ([CallResolveDeprecatedTemplateStyle doc, CallResolveTemplates intermediate],
                  case resolveTemplates w intermediate paramPayloads templateVariables of
                    Inl err \<Rightarrow> Inl (Failure ''could not resolve template vars'' err)
                  | Inr resolved \<Rightarrow> Inr resolved)) \<and>
            (\<forall>err.
               resolveDeprecatedTemplateStyle w doc paramPayloads templateVariables = Inl err \<longrightarrow>
               newConfig w configPath templateVariablesFiles templateVariables =
                 ([CallResolveDeprecatedTemplateStyle doc],
                  Inl (Failure ''could not resolve old-style template vars'' err)))) \<and>
         (\<not> Present w doc \<longrightarrow>
            newConfig w configPath templateVariablesFiles templateVariables =
              ([CallResolveTemplates doc],
               case resolveTemplates w doc paramPayloads templateVariables of
                 Inl err \<Rightarrow> Inl (Failure ''could not resolve template vars'' err)
               | Inr resolved \<Rightarrow> Inr resolved))"
proof -
  have nc: "newConfig w configPath templateVariablesFiles templateVariables =
            newConfig_evaluate w doc paramPayloads templateVariables"
    by (simp add: newConfig_def assms)
  have cur: "\<And>d. newConfig_current w d paramPayloads templateVariables =
      ([CallResolveTemplates d],
       case resolveTemplates w d paramPayloads templateVariables of
         Inl err \<Rightarrow> Inl (Failure ''could not resolve template vars'' err)
       | Inr resolved \<Rightarrow> Inr resolved)"
    by (simp add: newConfig_current_def split: sum.splits)
  show ?thesis
    unfolding nc
    by (cases "resolveDeprecatedTemplateStyle w doc paramPayloads templateVariables")
       (simp_all add: newConfig_evaluate_def cur)
qed

theorem newConfig_evaluator_order_witness:
  "readFile sample_world ''legacy.yml'' = Inr ''jobs: [{name: {{env}}}]'' \<and>
   readPayloads_loop sample_world [] [''vars1.yml'', ''vars2.yml''] = Inr sample_payloads \<and>
   Present sample_world ''jobs: [{name: {{env}}}]'' \<and>
   resolveDeprecatedTemplateStyle sample_world ''jobs: [{name: {{env}}}]'' sample_payloads
     sample_flags = Inr ''jobs: [{name: prod}]'' \<and>
   resolveTemplates sample_world ''jobs: [{name: prod}]'' sample_payloads sample_flags =
     Inr ''jobs: [{name: prod}]'' \<and>
   newConfig sample_world ''legacy.yml'' [''vars1.yml'', ''vars2.yml''] sample_flags =
     ([CallResolveDeprecatedTemplateStyle ''jobs: [{name: {{env}}}]'',
       CallResolveTemplates ''jobs: [{name: prod}]''], Inr ''jobs: [{name: prod}]'') \<and>
   readFile sample_world ''strict.yml'' = Inr ''jobs: [{name: ((env))-((zone))}]'' \<and>
   \<not> Present sample_world ''jobs: [{name: ((env))-((zone))}]'' \<and>
   resolveTemplates sample_world ''jobs: [{name: ((env))-((zone))}]'' sample_payloads
     sample_flags = Inl (MissingVariableError [''zone'']) \<and>
   newConfig sample_world ''strict.yml'' [''vars1.yml'', ''vars2.yml''] sample_flags =
     ([CallResolveTemplates ''jobs: [{name: ((env))-((zone))}]''],
      Inl (Failure ''could not resolve template vars'' (MissingVariableError [''zone''])))"
proof -
  have r1: "readFile sample_world ''legacy.yml'' = Inr ''jobs: [{name: {{env}}}]''"
    and r2: "readFile sample_world ''strict.yml'' = Inr ''jobs: [{name: ((env))-((zone))}]''"
    and p: "readPayloads_loop sample_world [] [''vars1.yml'', ''vars2.yml''] = Inr sample_payloads"
    by (simp_all add: sample_simps)
  have m1: "Present sample_world ''jobs: [{name: {{env}}}]''"
    and m2: "\<not> Present sample_world ''jobs: [{name: ((env))-((zone))}]''"
    by (simp_all add: sample_simps)
  have l: "resolveDeprecatedTemplateStyle sample_world ''jobs: [{name: {{env}}}]''
      sample_payloads sample_flags = Inr ''jobs: [{name: prod}]''"
    by (simp add: sample_simps resolve_simps)
  have c1: "resolveTemplates sample_world ''jobs: [{name: prod}]'' sample_payloads sample_flags =
      Inr ''jobs: [{name: prod}]''"
    and c2: "resolveTemplates sample_world ''jobs: [{name: ((env))-((zone))}]'' sample_payloads
      sample_flags = Inl (MissingVariableError [''zone''])"
    by (simp_all add: sample_simps resolve_simps)
  from newConfig_evaluator_order [OF r1 p, of sample_flags] m1 l c1
  have n1: "newConfig sample_world ''legacy.yml'' [''vars1.yml'', ''vars2.yml''] sample_flags =
     ([CallResolveDeprecatedTemplateStyle ''jobs: [{name: {{env}}}]'',
       CallResolveTemplates ''jobs: [{name: prod}]''], Inr ''jobs: [{name: prod}]'')"
    by simp
  from newConfig_evaluator_order [OF r2 p, of sample_flags] m2 c2
  have n2: "newConfig sample_world ''strict.yml'' [''vars1.yml'', ''vars2.yml''] sample_flags =
     ([CallResolveTemplates ''jobs: [{name: ((env))-((zone))}]''],
      Inl (Failure ''could not resolve template vars'' (MissingVariableError [''zone''])))"
    by simp
  from r1 r2 p m1 m2 l c1 c2 n1 n2 show ?thesis by blast
qed

text \<open>
  Claim C3. When the variable files decode and the document has a placeholder with no
  entry in the merged lookup, \<^verbatim>\<open>resolveTemplates\<close> fails with the missing-variable error
  that names exactly the placeholders of the document without an entry, all of them, and
  \<^verbatim>\<open>newConfig\<close> ends with that error: no document is returned.
\<close>

theorem resolveTemplates_missing_variables:
  assumes "map (unmarshalVars w) paramPayloads = map Inr Fs"
      and "n \<in> set (placeholders w configPayload)"
      and "flags_then (flagVars variables) (latest Fs) n = None"
  shows "\<exists>names.
           resolveTemplates w configPayload paramPayloads variables =
             Inl (MissingVariableError names) \<and>
           set names = {m \<in> set (placeholders w configPayload).
                          flags_then (flagVars variables) (latest Fs) m = None} \<and>
           newConfig_current w configPayload paramPayloads variables =
             ([CallResolveTemplates configPayload],
              Inl (Failure ''could not resolve template vars'' (MissingVariableError names)))"
proof -
  define G where "G = flagVars variables"
  define missing where
    "missing = filter (\<lambda>m. MultiVars_Get (G # rev Fs) m = None) (placeholders w configPayload)"
  have set_missing: "set missing = {m \<in> set (placeholders w configPayload).
                          flags_then G (latest Fs) m = None}"
    unfolding missing_def MultiVars_Get_flags_latest by auto
  have "n \<in> set missing"
    unfolding set_missing using assms(2,3) by (simp add: G_def)
  then have ne: "missing \<noteq> []" by auto
  have "template_Evaluate w configPayload (G # rev Fs) \<lparr>ExpectAllKeys = True\<rparr> =
          Inl (MissingVariableError (remdups missing))"
    using ne unfolding template_Evaluate_def missing_def by (simp add: Let_def)
  then have res: "resolveTemplates w configPayload paramPayloads variables =
          Inl (MissingVariableError (remdups missing))"
    unfolding resolveTemplates_def currentVars_decoded [OF assms(1)] G_def by simp
  show ?thesis
    using res set_missing
    by (intro exI [of _ "remdups missing"]) (simp add: newConfig_current_def G_def)
qed

theorem resolveTemplates_missing_variables_witness:
  "map (unmarshalVars sample_world) sample_payloads = map Inr [sample_file1, sample_file2] \<and>
   ''zone'' \<in> set (placeholders sample_world ''jobs: [{name: ((env))-((zone))}]'') \<and>
   flags_then (flagVars sample_flags) (latest [sample_file1, sample_file2]) ''zone'' = None \<and>
   resolveTemplates sample_world ''jobs: [{name: ((env))-((zone))}]'' sample_payloads
     sample_flags = Inl (MissingVariableError [''zone''])"
proof -
  have h: "map (unmarshalVars sample_world) sample_payloads =
      map Inr [sample_file1, sample_file2]"
    by (simp add: sample_simps)
  have z: "''zone'' \<in> set (placeholders sample_world ''jobs: [{name: ((env))-((zone))}]'')"
    by (simp add: sample_simps)
  have m: "flags_then (flagVars sample_flags) (latest [sample_file1, sample_file2]) ''zone'' =
      None"
    by (simp add: flags_then_def flagVars_def latest_def sample_simps)
  have e: "resolveTemplates sample_world ''jobs: [{name: ((env))-((zone))}]'' sample_payloads
      sample_flags = Inl (MissingVariableError [''zone''])"
    by (simp add: sample_simps resolve_simps)
  from resolveTemplates_missing_variables [OF h z m] h z m e
  show ?thesis by blast
qed

section \<open>The diff\<close>

lemma wf_index_update:
  "wf_index index \<Longrightarrow> wf_index (AList.update (entityName e) e index)"
  unfolding wf_index_def by (simp add: distinct_update update_conv')

lemma wf_index_foldl:
  "wf_index index \<Longrightarrow>
   wf_index (foldl (\<lambda>index e. AList.update (entityName e) e index) index collection)"
  by (induction collection arbitrary: index) (auto simp: wf_index_update)

lemma wf_NamedEntityIndex: "wf_index (NamedEntityIndex collection)"
  unfolding NamedEntityIndex_def by (rule wf_index_foldl) (simp add: wf_index_def)

lemma map_of_foldl_update:
  "map_of (foldl (\<lambda>index e. AList.update (entityName e) e index) index collection) n =
     (case map_of (map (\<lambda>e. (entityName e, e)) (rev collection)) n of
        Some e \<Rightarrow> Some e | None \<Rightarrow> map_of index n)"
  by (induction collection arbitrary: index)
     (auto simp: update_conv' map_add_def map_of_append split: option.splits)

text \<open>The index files a name under the last entity of the collection that has it.\<close>

lemma map_of_NamedEntityIndex:
  "map_of (NamedEntityIndex collection) n =
     map_of (map (\<lambda>e. (entityName e, e)) (rev collection)) n"
  unfolding NamedEntityIndex_def by (simp add: map_of_foldl_update split: option.splits)

lemma wf_index_map_of:
  "wf_index index \<Longrightarrow> map_of index n = Some e \<longleftrightarrow> (n, e) \<in> set index"
  by (simp add: wf_index_def)

lemma wf_index_in_set:
  "wf_index index \<Longrightarrow> (n, e) \<in> set index \<Longrightarrow> entityName e = n"
  by (simp add: wf_index_def)

lemma set_map_filter_conv:
  "y \<in> set (List.map_filter f xs) \<longleftrightarrow> (\<exists>x \<in> set xs. f x = Some y)"
  by (induction xs) (auto split: option.splits)

lemma changedRecord_Some:
  "changedRecord N p = Some r \<longleftrightarrow>
     (\<exists>en. map_of N (fst p) = Some en \<and> entityBody (snd p) \<noteq> entityBody en \<and>
           r = Changed (fst p) (entityBody (snd p)) (entityBody en))"
  by (auto simp: changedRecord_def split: option.splits)

lemma set_diffIndices:
  "set (diffIndices E N) =
     {Removed e | n e. (n, e) \<in> set E \<and> map_of N n = None} \<union>
     {Added e | n e. (n, e) \<in> set N \<and> map_of E n = None} \<union>
     {Changed n (entityBody eo) (entityBody en) | n eo en.
        (n, eo) \<in> set E \<and> map_of N n = Some en \<and> entityBody eo \<noteq> entityBody en}"
proof -
  have r: "set (map (\<lambda>p. Removed (snd p)) (filter (\<lambda>p. map_of N (fst p) = None) E)) =
        {Removed e | n e. (n, e) \<in> set E \<and> map_of N n = None}"
    by force
  have a: "set (map (\<lambda>p. Added (snd p)) (filter (\<lambda>p. map_of E (fst p) = None) N)) =
        {Added e | n e. (n, e) \<in> set N \<and> map_of E n = None}"
    by force
  have c: "set (List.map_filter (changedRecord N) (sort_key fst E)) =
        {Changed n (entityBody eo) (entityBody en) | n eo en.
           (n, eo) \<in> set E \<and> map_of N n = Some en \<and> entityBody eo \<noteq> entityBody en}"
  proof -
    have "\<And>n eo en. (n, eo) \<in> set E \<Longrightarrow> map_of N n = Some en \<Longrightarrow>
            entityBody eo \<noteq> entityBody en \<Longrightarrow>
            \<exists>p \<in> set E. changedRecord N p = Some (Changed n (entityBody eo) (entityBody en))"
      by (rule_tac x = "(n, eo)" in bexI) (simp_all add: changedRecord_Some)
    then show ?thesis
      by (auto simp: set_map_filter_conv) (auto simp: changedRecord_Some)
  qed
  show ?thesis
    unfolding diffIndices_def set_append r a c by blast
qed

lemma set_diffIndices_Removed:
  "wf_index E \<Longrightarrow>
   Removed e \<in> set (diffIndices E N) \<longleftrightarrow>
     map_of E (entityName e) = Some e \<and> map_of N (entityName e) = None"
  unfolding set_diffIndices
  by (auto simp: wf_index_map_of dest: wf_index_in_set)

lemma set_diffIndices_Added:
  "wf_index N \<Longrightarrow>
   Added e \<in> set (diffIndices E N) \<longleftrightarrow>
     map_of N (entityName e) = Some e \<and> map_of E (entityName e) = None"
  unfolding set_diffIndices
  by (auto simp: wf_index_map_of dest: wf_index_in_set)

lemma set_diffIndices_Changed:
  "wf_index E \<Longrightarrow>
   Changed n old new \<in> set (diffIndices E N) \<longleftrightarrow>
     (\<exists>eo en. map_of E n = Some eo \<and> map_of N n = Some en \<and>
        old = entityBody eo \<and> new = entityBody en \<and> old \<noteq> new)"
  unfolding set_diffIndices
  by (auto simp: wf_index_map_of)

lemma distinct_map_fst_sort_key:
  "distinct (map fst (sort_key fst xs)) = distinct (map fst xs)"
  by (induction xs) (auto simp: distinct_insort_key)

lemma map_recordName_map_filter:
  "(\<And>p r. f p = Some r \<Longrightarrow> recordName r = fst p) \<Longrightarrow>
   map recordName (List.map_filter f xs) = map fst (filter (\<lambda>p. f p \<noteq> None) xs)"
  by (induction xs) (auto split: option.splits)

lemma map_recordName_diffIndices:
  assumes "wf_index E" "wf_index N"
  shows "map recordName (diffIndices E N) =
           map fst (filter (\<lambda>p. map_of N (fst p) = None) E) @
           map fst (filter (\<lambda>p. map_of E (fst p) = None) N) @
           map fst (filter (\<lambda>p. changedRecord N p \<noteq> None) (sort_key fst E))"
proof -
  have "\<And>p r. changedRecord N p = Some r \<Longrightarrow> recordName r = fst p"
    by (auto simp: changedRecord_Some)
  then have c: "map recordName (List.map_filter (changedRecord N) (sort_key fst E)) =
           map fst (filter (\<lambda>p. changedRecord N p \<noteq> None) (sort_key fst E))"
    by (rule map_recordName_map_filter)
  have e: "\<And>p. p \<in> set E \<Longrightarrow> entityName (snd p) = fst p"
    using assms(1) by (metis prod.collapse wf_index_in_set)
  have n: "\<And>p. p \<in> set N \<Longrightarrow> entityName (snd p) = fst p"
    using assms(2) by (metis prod.collapse wf_index_in_set)
  show ?thesis
    unfolding diffIndices_def map_append c
    by (simp add: e n cong: map_cong)
qed

lemma distinct_recordName_diffIndices:
  assumes "wf_index E" "wf_index N"
  shows "distinct (map recordName (diffIndices E N))"
proof -
  have dE: "distinct (map fst E)" and dN: "distinct (map fst N)"
    using assms by (simp_all add: wf_index_def)
  have dS: "distinct (map fst (sort_key fst E))"
    using dE by (simp add: distinct_map_fst_sort_key)
  have inE: "\<And>p. p \<in> set E \<Longrightarrow> map_of E (fst p) \<noteq> None"
    by (metis map_of_eq_None_iff image_eqI)
  show ?thesis
    unfolding map_recordName_diffIndices [OF assms]
    using dE dN dS inE
    by (auto simp: distinct_map_filter changedRecord_Some map_of_eq_None_iff image_iff)
qed

lemma diffIndices_same: "wf_index X \<Longrightarrow> diffIndices X X = []"
proof -
  assume wf: "wf_index X"
  have "set (diffIndices X X) = {}"
    unfolding set_diffIndices using wf
    by (auto simp: wf_index_map_of [OF wf] wf_index_def dest: eq_key_imp_eq_value)
  then show ?thesis by simp
qed

text \<open>
  Claim C4. For the indices of any two collections, the diff has a \<open>Removed\<close> record for
  exactly the entities filed in the existing index whose name the new index lacks, an
  \<open>Added\<close> record for exactly the entities filed in the new index whose name the existing
  index lacks, and a \<open>Changed\<close> record with the old and the new body for exactly the names
  filed in both with different bodies. No two records are about the same name, so a name
  has at most one record and a name filed in both with equal bodies has none. The
  function is total: it returns a list for every pair of indices.
\<close>

theorem diffIndices_records:
  "(\<forall>e. Removed e \<in> set (diffIndices (NamedEntityIndex existing) (NamedEntityIndex new)) \<longleftrightarrow>
         map_of (NamedEntityIndex existing) (entityName e) = Some e \<and>
         map_of (NamedEntityIndex new) (entityName e) = None) \<and>
   (\<forall>e. Added e \<in> set (diffIndices (NamedEntityIndex existing) (NamedEntityIndex new)) \<longleftrightarrow>
         map_of (NamedEntityIndex new) (entityName e) = Some e \<and>
         map_of (NamedEntityIndex existing) (entityName e) = None) \<and>
   (\<forall>n oldBody newBody.
      Changed n oldBody newBody \<in>
        set (diffIndices (NamedEntityIndex existing) (NamedEntityIndex new)) \<longleftrightarrow>
      (\<exists>eo en. map_of (NamedEntityIndex existing) n = Some eo \<and>
         map_of (NamedEntityIndex new) n = Some en \<and>
         oldBody = entityBody eo \<and> newBody = entityBody en \<and> oldBody \<noteq> newBody)) \<and>
   distinct (map recordName (diffIndices (NamedEntityIndex existing) (NamedEntityIndex new)))"
  using wf_NamedEntityIndex [of existing] wf_NamedEntityIndex [of new]
  by (simp add: set_diffIndices_Removed set_diffIndices_Added set_diffIndices_Changed
        distinct_recordName_diffIndices)

theorem diffIndices_records_witness:
  "diffIndices (NamedEntityIndex sample_resources) (NamedEntityIndex sample_resources') =
     [Removed \<lparr>entityName = ''e'', entityBody = ''git''\<rparr>,
      Added \<lparr>entityName = ''d'', entityBody = ''s3''\<rparr>,
      Changed ''a'' ''git'' ''time'',
      Changed ''c'' ''git'' ''s3''] \<and>
   map_of (NamedEntityIndex sample_resources) ''b'' =
     Some \<lparr>entityName = ''b'', entityBody = ''git''\<rparr> \<and>
   map_of (NamedEntityIndex sample_resources') ''b'' =
     Some \<lparr>entityName = ''b'', entityBody = ''git''\<rparr> \<and>
   (\<forall>oldBody newBody. Changed ''b'' oldBody newBody \<notin>
      set (diffIndices (NamedEntityIndex sample_resources) (NamedEntityIndex sample_resources'))) \<and>
   distinct (map recordName
      (diffIndices (NamedEntityIndex sample_resources) (NamedEntityIndex sample_resources')))"
proof -
  have d: "diffIndices (NamedEntityIndex sample_resources) (NamedEntityIndex sample_resources') =
     [Removed \<lparr>entityName = ''e'', entityBody = ''git''\<rparr>,
      Added \<lparr>entityName = ''d'', entityBody = ''s3''\<rparr>,
      Changed ''a'' ''git'' ''time'',
      Changed ''c'' ''git'' ''s3'']"
    by code_simp
  have b: "map_of (NamedEntityIndex sample_resources) ''b'' =
      Some \<lparr>entityName = ''b'', entityBody = ''git''\<rparr>"
    and b': "map_of (NamedEntityIndex sample_resources') ''b'' =
      Some \<lparr>entityName = ''b'', entityBody = ''git''\<rparr>"
    by (simp_all add: map_of_NamedEntityIndex sample_resources_def sample_resources'_def)
  from diffIndices_records [of sample_resources sample_resources'] b b'
  have "\<forall>oldBody newBody. Changed ''b'' oldBody newBody \<notin>
      set (diffIndices (NamedEntityIndex sample_resources) (NamedEntityIndex sample_resources'))"
    by simp
  moreover from diffIndices_records [of sample_resources sample_resources']
  have "distinct (map recordName
      (diffIndices (NamedEntityIndex sample_resources) (NamedEntityIndex sample_resources')))"
    by blast
  ultimately show ?thesis using d b b' by blast
qed

text \<open>
  Claim C5. The diff of an index with itself is empty, and so \<^verbatim>\<open>diff\<close> of a configuration
  with itself prints nothing, for any of the four collections.
\<close>

theorem diffIndices_same_index_empty:
  "diffIndices (NamedEntityIndex collection) (NamedEntityIndex collection) = [] \<and>
   diff config config = []"
  by (simp add: diffIndices_same wf_NamedEntityIndex diff_def diff_section_def
        GroupIndex_def ResourceIndex_def ResourceTypeIndex_def JobIndex_def)

theorem diffIndices_same_index_empty_witness:
  "diffIndices (NamedEntityIndex sample_resources) (NamedEntityIndex sample_resources) = [] \<and>
   diff sample_existing sample_existing = []"
  by (rule diffIndices_same_index_empty)

section \<open>The apply workflow\<close>

lemma plain_simps:
  "plain []"
  "plain (e # evs) \<longleftrightarrow> \<not> is_put e \<and> \<not> is_answer e \<and> plain evs"
  "plain (xs @ ys) \<longleftrightarrow> plain xs \<and> plain ys"
  by (auto simp: plain_def)

lemma plain_ApplyConfigInteraction: "plain (fst (ApplyConfigInteraction atcConfig w))"
  by (simp add: ApplyConfigInteraction_def plain_simps split: sum.splits)

lemma plain_showHelpfulMessage: "plain (fst (showHelpfulMessage atcConfig w created updated))"
  by (simp add: showHelpfulMessage_def plain_simps)

lemma plain_diff_section: "plain (diff_section header label diffs)"
  by (auto simp: diff_section_def plain_def)

lemma plain_diff: "plain (diff existingConfig new)"
  by (simp add: diff_def plain_simps plain_diff_section)

lemma plain_newConfig: "plain (fst (newConfig w configPath files variables))"
  by (auto simp: newConfig_def newConfig_evaluate_def newConfig_current_def plain_simps
        split: sum.splits prod.splits if_splits)

lemma Set_apply_declined:
  "\<not> snd (ApplyConfigInteraction atcConfig w) \<Longrightarrow>
   Set_apply atcConfig w version doc =
     (fst (ApplyConfigInteraction atcConfig w) @ [Confirmed False, Println ''bailing out''],
      Returned None)"
  by (simp add: Set_apply_def case_prod_beta)

lemma Set_apply_confirmed:
  "snd (ApplyConfigInteraction atcConfig w) \<Longrightarrow>
   \<exists>rest. fst (Set_apply atcConfig w version doc) =
     fst (ApplyConfigInteraction atcConfig w) @
       [Confirmed True, CallCreateOrUpdatePipelineConfig (PipelineName atcConfig) version doc] @
       rest \<and>
     plain rest"
  using plain_showHelpfulMessage [of atcConfig w]
  by (auto simp: Set_apply_def case_prod_beta Let_def plain_simps split: option.splits)

lemma Set_apply_answers:
  "\<exists>ok. Confirmed ok \<in> set (fst (Set_apply atcConfig w version doc))"
  by (cases "snd (ApplyConfigInteraction atcConfig w)")
     (auto simp: Set_apply_def case_prod_beta Let_def split: option.splits)

text \<open>
  The three shapes of a run after the new document is resolved: it ends before the
  confirmation gate, or the gate declines, or the gate confirms and the put follows.
\<close>

lemma Set_fetch_shape:
  "plain (fst (Set_fetch atcConfig w doc)) \<or>
   (\<exists>before. plain before \<and> \<not> snd (ApplyConfigInteraction atcConfig w) \<and>
      Set_fetch atcConfig w doc =
        (before @ [Confirmed False, Println ''bailing out''], Returned None)) \<or>
   (\<exists>before rest. plain before \<and> plain rest \<and> snd (ApplyConfigInteraction atcConfig w) \<and>
      fst (Set_fetch atcConfig w doc) = before @
        [Confirmed True,
         CallCreateOrUpdatePipelineConfig (PipelineName atcConfig)
           (fst (snd (PipelineConfig w (PipelineName atcConfig)))) doc] @ rest)"
proof -
  obtain existingConfig version err
    where fetch: "PipelineConfig w (PipelineName atcConfig) = (existingConfig, version, err)"
    by (cases "PipelineConfig w (PipelineName atcConfig)") auto
  show ?thesis
  proof (cases "fetchErrorMessages err")
    case (Inl e)
    then show ?thesis by (simp add: Set_fetch_def fetch plain_simps)
  next
    case (Inr errorMessages)
    note msgs = this
    show ?thesis
    proof (cases "unmarshalConfig w doc")
      case (Inl e)
      then show ?thesis by (simp add: Set_fetch_def fetch msgs plain_simps)
    next
      case (Inr new)
      define before where
        "before = CallPipelineConfig (PipelineName atcConfig) # diff existingConfig new @
           (if length errorMessages > 0 then [ShowPipelineConfigErrors errorMessages] else []) @
           fst (ApplyConfigInteraction atcConfig w)"
      have pb: "plain before"
        by (simp add: before_def plain_simps plain_diff plain_ApplyConfigInteraction)
      have sf: "Set_fetch atcConfig w doc =
          (CallPipelineConfig (PipelineName atcConfig) # diff existingConfig new @
           (if length errorMessages > 0 then [ShowPipelineConfigErrors errorMessages] else []) @
           fst (Set_apply atcConfig w version doc), snd (Set_apply atcConfig w version doc))"
        by (simp add: Set_fetch_def fetch msgs Inr case_prod_beta)
      show ?thesis
      proof (cases "snd (ApplyConfigInteraction atcConfig w)")
        case False
        then have "Set_fetch atcConfig w doc =
            (before @ [Confirmed False, Println ''bailing out''], Returned None)"
          by (simp add: sf Set_apply_declined before_def)
        with pb False show ?thesis by blast
      next
        case True
        from Set_apply_confirmed [OF True, of version doc] obtain rest
          where "fst (Set_apply atcConfig w version doc) =
                   fst (ApplyConfigInteraction atcConfig w) @
                   [Confirmed True,
                    CallCreateOrUpdatePipelineConfig (PipelineName atcConfig) version doc] @ rest"
            and pr: "plain rest"
          by blast
        then have "fst (Set_fetch atcConfig w doc) = before @
            [Confirmed True,
             CallCreateOrUpdatePipelineConfig (PipelineName atcConfig)
               (fst (snd (PipelineConfig w (PipelineName atcConfig)))) doc] @ rest"
          by (simp add: sf before_def fetch)
        with pb pr True show ?thesis by blast
      qed
    qed
  qed
qed

lemma Set_shape:
  "plain (fst (Set atcConfig w configPath templateVariables templateVariablesFiles)) \<or>
   (\<exists>before. plain before \<and> \<not> snd (ApplyConfigInteraction atcConfig w) \<and>
      Set atcConfig w configPath templateVariables templateVariablesFiles =
        (before @ [Confirmed False, Println ''bailing out''], Returned None)) \<or>
   (\<exists>before rest doc. plain before \<and> plain rest \<and>
      snd (ApplyConfigInteraction atcConfig w) \<and>
      snd (newConfig w configPath templateVariablesFiles templateVariables) = Inr doc \<and>
      fst (Set atcConfig w configPath templateVariables templateVariablesFiles) = before @
        [Confirmed True,
         CallCreateOrUpdatePipelineConfig (PipelineName atcConfig)
           (fst (snd (PipelineConfig w (PipelineName atcConfig)))) doc] @ rest)"
proof -
  obtain resolving r
    where nc: "newConfig w configPath templateVariablesFiles templateVariables = (resolving, r)"
    by (cases "newConfig w configPath templateVariablesFiles templateVariables") auto
  have pr: "plain resolving"
    using plain_newConfig [of w configPath templateVariablesFiles templateVariables]
    by (simp add: nc)
  show ?thesis
  proof (cases r)
    case (Inl f)
    then show ?thesis by (simp add: Set_def nc pr)
  next
    case (Inr doc)
    have S: "Set atcConfig w configPath templateVariables templateVariablesFiles =
        (resolving @ fst (Set_fetch atcConfig w doc), snd (Set_fetch atcConfig w doc))"
      by (simp add: Set_def nc Inr case_prod_beta)
    from Set_fetch_shape [of atcConfig w doc] show ?thesis
    proof (elim disjE exE conjE)
      assume "plain (fst (Set_fetch atcConfig w doc))"
      then show ?thesis by (simp add: S plain_simps pr)
    next
      fix before
      assume "plain before" "\<not> snd (ApplyConfigInteraction atcConfig w)"
        "Set_fetch atcConfig w doc =
           (before @ [Confirmed False, Println ''bailing out''], Returned None)"
      then have "plain (resolving @ before) \<and> \<not> snd (ApplyConfigInteraction atcConfig w) \<and>
        Set atcConfig w configPath templateVariables templateVariablesFiles =
          ((resolving @ before) @ [Confirmed False, Println ''bailing out''], Returned None)"
        by (simp add: S plain_simps pr)
      then show ?thesis by blast
    next
      fix before rest
      assume "plain before" "plain rest" "snd (ApplyConfigInteraction atcConfig w)"
        "fst (Set_fetch atcConfig w doc) = before @
          [Confirmed True,
           CallCreateOrUpdatePipelineConfig (PipelineName atcConfig)
             (fst (snd (PipelineConfig w (PipelineName atcConfig)))) doc] @ rest"
      then have "plain (resolving @ before) \<and> plain rest \<and>
        snd (ApplyConfigInteraction atcConfig w) \<and>
        snd (newConfig w configPath templateVariablesFiles templateVariables) = Inr doc \<and>
        fst (Set atcConfig w configPath templateVariables templateVariablesFiles) =
          (resolving @ before) @
          [Confirmed True,
           CallCreateOrUpdatePipelineConfig (PipelineName atcConfig)
             (fst (snd (PipelineConfig w (PipelineName atcConfig)))) doc] @ rest"
        by (simp add: S plain_simps pr nc Inr)
      then show ?thesis by blast
    qed
  qed
qed

lemma put_split_unique:
  assumes "before @ [c, p] @ rest = pre @ e # post" and "is_put e"
      and "plain before" and "\<not> is_put c" and "plain rest"
  shows "pre = before @ [c] \<and> e = p \<and> post = rest"
  using assms
proof (induction before arbitrary: pre)
  case Nil
  then show ?case
    by (auto simp: Cons_eq_append_conv plain_def)
next
  case (Cons a before)
  then show ?case
    by (cases pre) (auto simp: plain_simps)
qed

lemmas world_simps =
  invalid_world_def failing_world_def declining_world_def silent_world_def
  neither_world_def both_world_def invalid_PipelineConfig_def failing_PipelineConfig_def
  neither_put_def both_put_def answer_no_def answer_fails_def skipping_atc_def

lemma fetched_without_error_fields:
  "readFile (fetched_without_error w c v) = readFile w"
  "unmarshalVars (fetched_without_error w c v) = unmarshalVars w"
  "unmarshalOldVars (fetched_without_error w c v) = unmarshalOldVars w"
  "unmarshalConfig (fetched_without_error w c v) = unmarshalConfig w"
  "Present (fetched_without_error w c v) = Present w"
  "temp_Evaluate (fetched_without_error w c v) = temp_Evaluate w"
  "placeholders (fetched_without_error w c v) = placeholders w"
  "interpolate (fetched_without_error w c v) = interpolate w"
  "CreateOrUpdatePipelineConfig (fetched_without_error w c v) = CreateOrUpdatePipelineConfig w"
  "Resolve (fetched_without_error w c v) = Resolve w"
  "pipelineURL (fetched_without_error w c v) = pipelineURL w"
  "teamName (fetched_without_error w c v) = teamName w"
  "PipelineConfig (fetched_without_error w c v) pipeline = (c, v, None)"
  by (simp_all add: fetched_without_error_def)

lemma readPayloads_loop_fetched:
  "readPayloads_loop (fetched_without_error w c v) acc paths = readPayloads_loop w acc paths"
  by (induction paths arbitrary: acc)
     (simp_all add: fetched_without_error_fields split: sum.splits)

lemma template_Evaluate_fetched:
  "template_Evaluate (fetched_without_error w c v) doc varss opts =
   template_Evaluate w doc varss opts"
  by (simp add: template_Evaluate_def Let_def fetched_without_error_fields)

lemma resolveTemplates_fetched:
  "resolveTemplates (fetched_without_error w c v) doc paramPayloads variables =
   resolveTemplates w doc paramPayloads variables"
  by (simp add: resolveTemplates_def template_Evaluate_fetched fetched_without_error_fields
        cong: sum.case_cong)

lemma resolveDeprecatedTemplateStyle_fetched:
  "resolveDeprecatedTemplateStyle (fetched_without_error w c v) doc paramPayloads variables =
   resolveDeprecatedTemplateStyle w doc paramPayloads variables"
  by (simp add: resolveDeprecatedTemplateStyle_def fetched_without_error_fields
        cong: sum.case_cong)

lemma newConfig_current_fetched:
  "newConfig_current (fetched_without_error w c v) doc paramPayloads variables =
   newConfig_current w doc paramPayloads variables"
  by (simp add: newConfig_current_def resolveTemplates_fetched)

lemma newConfig_evaluate_fetched:
  "newConfig_evaluate (fetched_without_error w c v) doc paramPayloads variables =
   newConfig_evaluate w doc paramPayloads variables"
  by (simp add: newConfig_evaluate_def newConfig_current_fetched
        resolveDeprecatedTemplateStyle_fetched fetched_without_error_fields
        cong: sum.case_cong)

lemma newConfig_fetched:
  "newConfig (fetched_without_error w c v) configPath files variables =
   newConfig w configPath files variables"
  by (simp add: newConfig_def readPayloads_loop_fetched newConfig_evaluate_fetched
        fetched_without_error_fields cong: sum.case_cong)

lemma showHelpfulMessage_fetched:
  "showHelpfulMessage atcConfig (fetched_without_error w c v) created updated =
   showHelpfulMessage atcConfig w created updated"
  by (simp add: showHelpfulMessage_def fetched_without_error_fields)

lemma ApplyConfigInteraction_fetched:
  "ApplyConfigInteraction atcConfig (fetched_without_error w c v) =
   ApplyConfigInteraction atcConfig w"
  by (simp add: ApplyConfigInteraction_def fetched_without_error_fields)

lemma Set_apply_fetched:
  "Set_apply atcConfig (fetched_without_error w c v) version doc =
   Set_apply atcConfig w version doc"
  by (simp add: Set_apply_def ApplyConfigInteraction_fetched showHelpfulMessage_fetched
        fetched_without_error_fields cong: option.case_cong prod.case_cong if_cong)

lemma no_error_block_newConfig:
  "filter (\<lambda>e. \<not> is_error_block e) (fst (newConfig w configPath files variables)) =
   fst (newConfig w configPath files variables)"
  by (auto simp: newConfig_def newConfig_evaluate_def newConfig_current_def
        split: sum.splits prod.splits if_splits)

lemma no_error_block_diff_section:
  "filter (\<lambda>e. \<not> is_error_block e) (diff_section header label diffs) =
   diff_section header label diffs"
  by (simp add: diff_section_def filter_id_conv) auto

lemma no_error_block_diff:
  "filter (\<lambda>e. \<not> is_error_block e) (diff existingConfig new) = diff existingConfig new"
  by (simp add: diff_def no_error_block_diff_section)

lemma no_error_block_Set_apply:
  "filter (\<lambda>e. \<not> is_error_block e) (fst (Set_apply atcConfig w version doc)) =
   fst (Set_apply atcConfig w version doc)"
  by (auto simp: Set_apply_def ApplyConfigInteraction_def showHelpfulMessage_def
        case_prod_beta Let_def split: sum.splits option.splits)

text \<open>
  Claim C7. A configuration-validation error of the fetch does not end the run: \<^verbatim>\<open>Set\<close>
  has the outcome, and apart from the block of error messages the events, of the run in
  which the fetch returns the same configuration and version without an error. So, the
  new document parsing as a configuration, it renders the diff of the existing
  configuration returned with the error against the new one, shows the error messages
  when there are any, and comes to the confirmation step, whose answer decides the rest;
  and a new document that does not parse ends the run with the parse error, as it does
  after a fetch without error. Any other error of the fetch is returned right after the
  fetch: nothing is diffed, asked or stored.
\<close>

theorem Set_fetch_error_handling:
  assumes "newConfig w configPath templateVariablesFiles templateVariables = (resolving, Inr doc)"
      and "PipelineConfig w (PipelineName atcConfig) = (existingConfig, version, Some err)"
  shows "(\<forall>errorMessages.
            err = PipelineConfigError errorMessages \<longrightarrow>
            snd (Set atcConfig w configPath templateVariables templateVariablesFiles) =
              snd (Set atcConfig (fetched_without_error w existingConfig version)
                     configPath templateVariables templateVariablesFiles) \<and>
            filter (\<lambda>e. \<not> is_error_block e)
                (fst (Set atcConfig w configPath templateVariables templateVariablesFiles)) =
              fst (Set atcConfig (fetched_without_error w existingConfig version)
                     configPath templateVariables templateVariablesFiles) \<and>
            (\<forall>new. unmarshalConfig w doc = Inr new \<longrightarrow>
               Set atcConfig w configPath templateVariables templateVariablesFiles =
                 (resolving @ CallPipelineConfig (PipelineName atcConfig) #
                  diff existingConfig new @
                  (if errorMessages \<noteq> [] then [ShowPipelineConfigErrors errorMessages] else []) @
                  fst (Set_apply atcConfig w version doc),
                  snd (Set_apply atcConfig w version doc)) \<and>
               (\<exists>ok. Confirmed ok \<in> set (fst (Set_apply atcConfig w version doc)))) \<and>
            (\<forall>e. unmarshalConfig w doc = Inl e \<longrightarrow>
               Set atcConfig w configPath templateVariables templateVariablesFiles =
                 (resolving @ [CallPipelineConfig (PipelineName atcConfig)],
                  Returned (Some e)))) \<and>
         ((\<forall>errorMessages. err \<noteq> PipelineConfigError errorMessages) \<longrightarrow>
            Set atcConfig w configPath templateVariables templateVariablesFiles =
              (resolving @ [CallPipelineConfig (PipelineName atcConfig)], Returned (Some err)))"
proof -
  let ?w0 = "fetched_without_error w existingConfig version"
  have b: "(\<forall>errorMessages. err \<noteq> PipelineConfigError errorMessages) \<Longrightarrow>
      fetchErrorMessages (Some err) = Inl err"
    by (cases err) auto
  have other: "(\<forall>errorMessages. err \<noteq> PipelineConfigError errorMessages) \<longrightarrow>
      Set atcConfig w configPath templateVariables templateVariablesFiles =
        (resolving @ [CallPipelineConfig (PipelineName atcConfig)], Returned (Some err))"
    using b by (auto simp: Set_def Set_fetch_def assms)
  have nr: "filter (\<lambda>e. \<not> is_error_block e) resolving = resolving"
    using no_error_block_newConfig [of w configPath templateVariablesFiles templateVariables]
    by (simp add: assms)
  have S0: "Set atcConfig ?w0 configPath templateVariables templateVariablesFiles =
      (case unmarshalConfig w doc of
         Inl e \<Rightarrow> (resolving @ [CallPipelineConfig (PipelineName atcConfig)], Returned (Some e))
       | Inr new \<Rightarrow>
           (resolving @ CallPipelineConfig (PipelineName atcConfig) # diff existingConfig new @
            fst (Set_apply atcConfig w version doc),
            snd (Set_apply atcConfig w version doc)))"
    by (simp add: Set_def Set_fetch_def newConfig_fetched assms(1) Set_apply_fetched
          fetched_without_error_fields case_prod_beta split: sum.splits)
  have invalid: "\<And>errorMessages. err = PipelineConfigError errorMessages \<Longrightarrow>
      Set atcConfig w configPath templateVariables templateVariablesFiles =
      (case unmarshalConfig w doc of
         Inl e \<Rightarrow> (resolving @ [CallPipelineConfig (PipelineName atcConfig)], Returned (Some e))
       | Inr new \<Rightarrow>
           (resolving @ CallPipelineConfig (PipelineName atcConfig) # diff existingConfig new @
            (if errorMessages \<noteq> [] then [ShowPipelineConfigErrors errorMessages] else []) @
            fst (Set_apply atcConfig w version doc),
            snd (Set_apply atcConfig w version doc)))"
    by (simp add: Set_def Set_fetch_def assms case_prod_beta split: sum.splits)
  have "\<And>errorMessages. err = PipelineConfigError errorMessages \<Longrightarrow>
      snd (Set atcConfig w configPath templateVariables templateVariablesFiles) =
        snd (Set atcConfig ?w0 configPath templateVariables templateVariablesFiles) \<and>
      filter (\<lambda>e. \<not> is_error_block e)
          (fst (Set atcConfig w configPath templateVariables templateVariablesFiles)) =
        fst (Set atcConfig ?w0 configPath templateVariables templateVariablesFiles) \<and>
      (\<forall>new. unmarshalConfig w doc = Inr new \<longrightarrow>
         Set atcConfig w configPath templateVariables templateVariablesFiles =
           (resolving @ CallPipelineConfig (PipelineName atcConfig) #
            diff existingConfig new @
            (if errorMessages \<noteq> [] then [ShowPipelineConfigErrors errorMessages] else []) @
            fst (Set_apply atcConfig w version doc),
            snd (Set_apply atcConfig w version doc)) \<and>
         (\<exists>ok. Confirmed ok \<in> set (fst (Set_apply atcConfig w version doc)))) \<and>
      (\<forall>e. unmarshalConfig w doc = Inl e \<longrightarrow>
         Set atcConfig w configPath templateVariables templateVariablesFiles =
           (resolving @ [CallPipelineConfig (PipelineName atcConfig)], Returned (Some e)))"
    using Set_apply_answers [of atcConfig w version doc]
    unfolding S0
    by (cases "unmarshalConfig w doc")
       (simp_all add: invalid nr no_error_block_diff no_error_block_Set_apply)
  with other show ?thesis by blast
qed

theorem Set_fetch_error_handling_witness:
  "newConfig invalid_world ''pipeline.yml'' [''vars1.yml'', ''vars2.yml''] sample_flags =
     ([CallResolveTemplates ''jobs: [{name: ((env))}]''], Inr ''jobs: [{name: prod}]'') \<and>
   PipelineConfig invalid_world (PipelineName sample_atc) =
     (sample_existing, ''7'', Some (PipelineConfigError [''unknown resource type''])) \<and>
   unmarshalConfig invalid_world ''jobs: [{name: prod}]'' = Inr sample_new \<and>
   Set sample_atc invalid_world ''pipeline.yml'' sample_flags [''vars1.yml'', ''vars2.yml''] =
     ([CallResolveTemplates ''jobs: [{name: ((env))}]'',
       CallPipelineConfig ''demo'', Println ''jobs:'',
       Render ''job'' (Removed \<lparr>entityName = ''old'', entityBody = ''{}''\<rparr>),
       Render ''job'' (Added \<lparr>entityName = ''prod'', entityBody = ''{}''\<rparr>),
       ShowPipelineConfigErrors [''unknown resource type''],
       Prompt ''apply configuration?'', Confirmed True,
       CallCreateOrUpdatePipelineConfig ''demo'' ''7'' ''jobs: [{name: prod}]'',
       Println ''configuration updated''],
      Returned None) \<and>
   Set sample_atc (fetched_without_error invalid_world sample_existing ''7'') ''pipeline.yml''
       sample_flags [''vars1.yml'', ''vars2.yml''] =
     ([CallResolveTemplates ''jobs: [{name: ((env))}]'',
       CallPipelineConfig ''demo'', Println ''jobs:'',
       Render ''job'' (Removed \<lparr>entityName = ''old'', entityBody = ''{}''\<rparr>),
       Render ''job'' (Added \<lparr>entityName = ''prod'', entityBody = ''{}''\<rparr>),
       Prompt ''apply configuration?'', Confirmed True,
       CallCreateOrUpdatePipelineConfig ''demo'' ''7'' ''jobs: [{name: prod}]'',
       Println ''configuration updated''],
      Returned None) \<and>
   Confirmed True \<in> set (fst (Set_apply sample_atc invalid_world ''7'' ''jobs: [{name: prod}]'')) \<and>
   newConfig invalid_world ''broken.yml'' [''vars1.yml'', ''vars2.yml''] sample_flags =
     ([CallResolveTemplates ''jobs: 7''], Inr ''jobs: 7'') \<and>
   unmarshalConfig invalid_world ''jobs: 7'' = Inl (DecodeError ''jobs: 7'') \<and>
   Set sample_atc invalid_world ''broken.yml'' sample_flags [''vars1.yml'', ''vars2.yml''] =
     ([CallResolveTemplates ''jobs: 7'', CallPipelineConfig ''demo''],
      Returned (Some (DecodeError ''jobs: 7''))) \<and>
   newConfig failing_world ''pipeline.yml'' [''vars1.yml'', ''vars2.yml''] sample_flags =
     ([CallResolveTemplates ''jobs: [{name: ((env))}]''], Inr ''jobs: [{name: prod}]'') \<and>
   PipelineConfig failing_world (PipelineName sample_atc) =
     (sample_existing, [], Some (OtherError ''connection refused'')) \<and>
   Set sample_atc failing_world ''pipeline.yml'' sample_flags [''vars1.yml'', ''vars2.yml''] =
     ([CallResolveTemplates ''jobs: [{name: ((env))}]'', CallPipelineConfig ''demo''],
      Returned (Some (OtherError ''connection refused'')))"
proof -
  have n1: "newConfig invalid_world ''pipeline.yml'' [''vars1.yml'', ''vars2.yml''] sample_flags =
      ([CallResolveTemplates ''jobs: [{name: ((env))}]''], Inr ''jobs: [{name: prod}]'')"
    and n2: "newConfig invalid_world ''broken.yml'' [''vars1.yml'', ''vars2.yml''] sample_flags =
      ([CallResolveTemplates ''jobs: 7''], Inr ''jobs: 7'')"
    and n3: "newConfig failing_world ''pipeline.yml'' [''vars1.yml'', ''vars2.yml''] sample_flags =
      ([CallResolveTemplates ''jobs: [{name: ((env))}]''], Inr ''jobs: [{name: prod}]'')"
    by code_simp+
  have f1: "PipelineConfig invalid_world (PipelineName sample_atc) =
      (sample_existing, ''7'', Some (PipelineConfigError [''unknown resource type'']))"
    and f3: "PipelineConfig failing_world (PipelineName sample_atc) =
      (sample_existing, [], Some (OtherError ''connection refused''))"
    by (simp_all add: world_simps sample_simps)
  have u1: "unmarshalConfig invalid_world ''jobs: [{name: prod}]'' = Inr sample_new"
    and u2: "unmarshalConfig invalid_world ''jobs: 7'' = Inl (DecodeError ''jobs: 7'')"
    by (simp_all add: world_simps sample_world_def sample_unmarshalConfig_def)
  have a: "Set_apply sample_atc invalid_world ''7'' ''jobs: [{name: prod}]'' =
      ([Prompt ''apply configuration?'', Confirmed True,
        CallCreateOrUpdatePipelineConfig ''demo'' ''7'' ''jobs: [{name: prod}]'',
        Println ''configuration updated''], Returned None)"
    by code_simp
  have d: "diff sample_existing sample_new =
      [Println ''jobs:'',
       Render ''job'' (Removed \<lparr>entityName = ''old'', entityBody = ''{}''\<rparr>),
       Render ''job'' (Added \<lparr>entityName = ''prod'', entityBody = ''{}''\<rparr>)]"
    by code_simp
  have pn: "PipelineName sample_atc = ''demo''"
    by (simp add: sample_atc_def)
  have s0: "Set sample_atc (fetched_without_error invalid_world sample_existing ''7'')
       ''pipeline.yml'' sample_flags [''vars1.yml'', ''vars2.yml''] =
     ([CallResolveTemplates ''jobs: [{name: ((env))}]'',
       CallPipelineConfig ''demo'', Println ''jobs:'',
       Render ''job'' (Removed \<lparr>entityName = ''old'', entityBody = ''{}''\<rparr>),
       Render ''job'' (Added \<lparr>entityName = ''prod'', entityBody = ''{}''\<rparr>),
       Prompt ''apply configuration?'', Confirmed True,
       CallCreateOrUpdatePipelineConfig ''demo'' ''7'' ''jobs: [{name: prod}]'',
       Println ''configuration updated''],
      Returned None)"
    by code_simp
  from Set_fetch_error_handling [OF n1 f1] u1
  have s1: "Set sample_atc invalid_world ''pipeline.yml'' sample_flags
        [''vars1.yml'', ''vars2.yml''] =
     ([CallResolveTemplates ''jobs: [{name: ((env))}]'',
       CallPipelineConfig ''demo'', Println ''jobs:'',
       Render ''job'' (Removed \<lparr>entityName = ''old'', entityBody = ''{}''\<rparr>),
       Render ''job'' (Added \<lparr>entityName = ''prod'', entityBody = ''{}''\<rparr>),
       ShowPipelineConfigErrors [''unknown resource type''],
       Prompt ''apply configuration?'', Confirmed True,
       CallCreateOrUpdatePipelineConfig ''demo'' ''7'' ''jobs: [{name: prod}]'',
       Println ''configuration updated''],
      Returned None)"
    by (simp add: a d pn)
  from Set_fetch_error_handling [OF n2 f1] u2
  have s2: "Set sample_atc invalid_world ''broken.yml'' sample_flags
        [''vars1.yml'', ''vars2.yml''] =
     ([CallResolveTemplates ''jobs: 7'', CallPipelineConfig ''demo''],
      Returned (Some (DecodeError ''jobs: 7'')))"
    by (simp add: pn)
  from Set_fetch_error_handling [OF n3 f3]
  have s3: "Set sample_atc failing_world ''pipeline.yml'' sample_flags
        [''vars1.yml'', ''vars2.yml''] =
     ([CallResolveTemplates ''jobs: [{name: ((env))}]'', CallPipelineConfig ''demo''],
      Returned (Some (OtherError ''connection refused'')))"
    by (simp add: pn)
  have c: "Confirmed True \<in>
      set (fst (Set_apply sample_atc invalid_world ''7'' ''jobs: [{name: prod}]''))"
    by (simp add: a)
  from n1 n2 n3 f1 f3 u1 u2 s0 s1 s2 s3 c show ?thesis by blast
qed

text \<open>
  Claim C8. In every run of \<^verbatim>\<open>Set\<close> the team's \<^verbatim>\<open>CreateOrUpdatePipelineConfig\<close> is called
  at most once; a call comes only after \<^verbatim>\<open>ApplyConfigInteraction\<close> has returned true, and it
  is made with the pipeline name, the version the fetch returned and the resolved
  document. When \<^verbatim>\<open>ApplyConfigInteraction\<close> returns false, nothing is put and \<^verbatim>\<open>Set\<close>
  returns no error.
\<close>

theorem Set_put_guarded_by_confirmation:
  "length (filter is_put
     (fst (Set atcConfig w configPath templateVariables templateVariablesFiles))) \<le> 1 \<and>
   (\<forall>pre e post.
      fst (Set atcConfig w configPath templateVariables templateVariablesFiles) = pre @ e # post \<and>
      is_put e \<longrightarrow>
        Confirmed True \<in> set pre \<and> snd (ApplyConfigInteraction atcConfig w) \<and>
        (\<exists>doc. snd (newConfig w configPath templateVariablesFiles templateVariables) = Inr doc \<and>
           e = CallCreateOrUpdatePipelineConfig (PipelineName atcConfig)
                 (fst (snd (PipelineConfig w (PipelineName atcConfig)))) doc)) \<and>
   (Confirmed False \<in>
      set (fst (Set atcConfig w configPath templateVariables templateVariablesFiles)) \<longrightarrow>
      \<not> snd (ApplyConfigInteraction atcConfig w) \<and>
      filter is_put (fst (Set atcConfig w configPath templateVariables templateVariablesFiles)) = [] \<and>
      snd (Set atcConfig w configPath templateVariables templateVariablesFiles) = Returned None)"
proof -
  let ?R = "Set atcConfig w configPath templateVariables templateVariablesFiles"
  have np: "\<And>evs. plain evs \<Longrightarrow> filter is_put evs = []"
    by (auto simp: plain_def filter_empty_conv)
  have nc: "\<And>evs b. plain evs \<Longrightarrow> Confirmed b \<notin> set evs"
    by (auto simp: plain_def)
  from Set_shape [of atcConfig w configPath templateVariables templateVariablesFiles]
  show ?thesis
  proof (elim disjE exE conjE)
    assume p: "plain (fst ?R)"
    then have "\<And>pre e post. fst ?R = pre @ e # post \<Longrightarrow> \<not> is_put e"
      by (auto simp: plain_def)
    with p show ?thesis by (auto simp: np nc)
  next
    fix before
    assume p: "plain before" and no: "\<not> snd (ApplyConfigInteraction atcConfig w)"
      and R: "?R = (before @ [Confirmed False, Println ''bailing out''], Returned None)"
    have f: "filter is_put (fst ?R) = []"
      by (simp add: R np [OF p])
    then have "\<And>pre e post. fst ?R = pre @ e # post \<Longrightarrow> \<not> is_put e"
      by (metis filter_empty_conv in_set_conv_decomp)
    with f no R show ?thesis by auto
  next
    fix before rest doc
    assume p: "plain before" and q: "plain rest"
      and ok: "snd (ApplyConfigInteraction atcConfig w)"
      and d: "snd (newConfig w configPath templateVariablesFiles templateVariables) = Inr doc"
      and R: "fst ?R = before @
        [Confirmed True,
         CallCreateOrUpdatePipelineConfig (PipelineName atcConfig)
           (fst (snd (PipelineConfig w (PipelineName atcConfig)))) doc] @ rest"
    have one: "length (filter is_put (fst ?R)) \<le> 1"
      by (simp add: R np [OF p] np [OF q])
    have nf: "Confirmed False \<notin> set (fst ?R)"
      using nc [OF p] nc [OF q] by (simp add: R)
    have "\<And>pre e post. fst ?R = pre @ e # post \<Longrightarrow> is_put e \<Longrightarrow>
        pre = before @ [Confirmed True] \<and>
        e = CallCreateOrUpdatePipelineConfig (PipelineName atcConfig)
              (fst (snd (PipelineConfig w (PipelineName atcConfig)))) doc"
      using put_split_unique [OF _ _ p _ q] unfolding R by (metis is_put.simps(9))
    then have two: "\<forall>pre e post. fst ?R = pre @ e # post \<and> is_put e \<longrightarrow>
        Confirmed True \<in> set pre \<and> snd (ApplyConfigInteraction atcConfig w) \<and>
        (\<exists>doc. snd (newConfig w configPath templateVariablesFiles templateVariables) = Inr doc \<and>
           e = CallCreateOrUpdatePipelineConfig (PipelineName atcConfig)
                 (fst (snd (PipelineConfig w (PipelineName atcConfig)))) doc)"
      using ok d by fastforce
    from one two nf show ?thesis by blast
  qed
qed

theorem Set_put_guarded_by_confirmation_witness:
  "fst (Set sample_atc sample_world ''pipeline.yml'' sample_flags [''vars1.yml'', ''vars2.yml'']) =
     [CallResolveTemplates ''jobs: [{name: ((env))}]'',
      CallPipelineConfig ''demo'', Println ''jobs:'',
      Render ''job'' (Removed \<lparr>entityName = ''old'', entityBody = ''{}''\<rparr>),
      Render ''job'' (Added \<lparr>entityName = ''prod'', entityBody = ''{}''\<rparr>),
      Prompt ''apply configuration?'', Confirmed True] @
     CallCreateOrUpdatePipelineConfig ''demo'' ''7'' ''jobs: [{name: prod}]'' #
     [Println ''configuration updated''] \<and>
   is_put (CallCreateOrUpdatePipelineConfig ''demo'' ''7'' ''jobs: [{name: prod}]'' ::
             string event) \<and>
   snd (ApplyConfigInteraction sample_atc sample_world) \<and>
   fst (snd (PipelineConfig sample_world (PipelineName sample_atc))) = ''7'' \<and>
   length (filter is_put
     (fst (Set sample_atc sample_world ''pipeline.yml'' sample_flags
             [''vars1.yml'', ''vars2.yml'']))) \<le> 1 \<and>
   Confirmed False \<in>
     set (fst (Set sample_atc declining_world ''pipeline.yml'' sample_flags
                 [''vars1.yml'', ''vars2.yml''])) \<and>
   filter is_put
     (fst (Set sample_atc declining_world ''pipeline.yml'' sample_flags
             [''vars1.yml'', ''vars2.yml''])) = [] \<and>
   snd (Set sample_atc declining_world ''pipeline.yml'' sample_flags
          [''vars1.yml'', ''vars2.yml'']) = Returned None"
proof -
  have run: "fst (Set sample_atc sample_world ''pipeline.yml'' sample_flags
                    [''vars1.yml'', ''vars2.yml'']) =
     [CallResolveTemplates ''jobs: [{name: ((env))}]'',
      CallPipelineConfig ''demo'', Println ''jobs:'',
      Render ''job'' (Removed \<lparr>entityName = ''old'', entityBody = ''{}''\<rparr>),
      Render ''job'' (Added \<lparr>entityName = ''prod'', entityBody = ''{}''\<rparr>),
      Prompt ''apply configuration?'', Confirmed True] @
     CallCreateOrUpdatePipelineConfig ''demo'' ''7'' ''jobs: [{name: prod}]'' #
     [Println ''configuration updated'']"
    by code_simp
  have put: "is_put (CallCreateOrUpdatePipelineConfig ''demo'' ''7'' ''jobs: [{name: prod}]'' ::
             string event)"
    by simp
  have declined: "Confirmed False \<in>
     set (fst (Set sample_atc declining_world ''pipeline.yml'' sample_flags
                 [''vars1.yml'', ''vars2.yml'']))"
    by code_simp
  have version: "fst (snd (PipelineConfig sample_world (PipelineName sample_atc))) = ''7''"
    by (simp add: sample_simps)
  note guarded =
    Set_put_guarded_by_confirmation
      [of sample_atc sample_world "''pipeline.yml''" sample_flags "[''vars1.yml'', ''vars2.yml'']"]
  note bailed =
    Set_put_guarded_by_confirmation
      [of sample_atc declining_world "''pipeline.yml''" sample_flags
          "[''vars1.yml'', ''vars2.yml'']"]
  from guarded run put have "snd (ApplyConfigInteraction sample_atc sample_world)"
    by blast
  moreover from guarded have "length (filter is_put
     (fst (Set sample_atc sample_world ''pipeline.yml'' sample_flags
             [''vars1.yml'', ''vars2.yml'']))) \<le> 1"
    by blast
  moreover from bailed declined have "filter is_put
     (fst (Set sample_atc declining_world ''pipeline.yml'' sample_flags
             [''vars1.yml'', ''vars2.yml''])) = [] \<and>
   snd (Set sample_atc declining_world ''pipeline.yml'' sample_flags
          [''vars1.yml'', ''vars2.yml'']) = Returned None"
    by blast
  ultimately show ?thesis
    using run put declined version by blast
qed

text \<open>
  Claim C9 as stated fails: when the put returns both flags true, the run reports
  ``configuration updated'' and returns no error; it is not treated as a fault.
\<close>

theorem both_flags_reported_as_updated:
  "CreateOrUpdatePipelineConfig both_world ''demo'' ''7'' ''jobs: [{name: prod}]'' =
     (True, True, [], None) \<and>
   showHelpfulMessage sample_atc both_world True True =
     ([Println ''configuration updated''], None) \<and>
   Set sample_atc both_world ''pipeline.yml'' sample_flags [''vars1.yml'', ''vars2.yml''] =
     ([CallResolveTemplates ''jobs: [{name: ((env))}]'',
       CallPipelineConfig ''demo'', Println ''jobs:'',
       Render ''job'' (Removed \<lparr>entityName = ''old'', entityBody = ''{}''\<rparr>),
       Render ''job'' (Added \<lparr>entityName = ''prod'', entityBody = ''{}''\<rparr>),
       Prompt ''apply configuration?'', Confirmed True,
       CallCreateOrUpdatePipelineConfig ''demo'' ''7'' ''jobs: [{name: prod}]'',
       Println ''configuration updated''],
      Returned None)"
  by code_simp

text \<open>
  Claim C9, as the code has it. \<^verbatim>\<open>showHelpfulMessage\<close> panics exactly when both flags are
  false. When \<open>updated\<close> is true it reports ``configuration updated'', whatever \<open>created\<close>
  is; when only \<open>created\<close> is true it reports the created pipeline. So after a confirmed
  put without error, \<^verbatim>\<open>Set\<close> ends in the panic when both flags are false and returns no
  error otherwise.
\<close>

theorem showHelpfulMessage_outcomes:
  "(snd (showHelpfulMessage atcConfig w created updated) \<noteq> None \<longleftrightarrow> \<not> created \<and> \<not> updated) \<and>
   (updated \<longrightarrow>
      showHelpfulMessage atcConfig w created updated =
        ([Println ''configuration updated''], None)) \<and>
   (created \<and> \<not> updated \<longrightarrow>
      hd (fst (showHelpfulMessage atcConfig w created updated)) = Println ''pipeline created!'' \<and>
      snd (showHelpfulMessage atcConfig w created updated) = None) \<and>
   (snd (ApplyConfigInteraction atcConfig w) \<and>
    CreateOrUpdatePipelineConfig w (PipelineName atcConfig) version doc =
      (created, updated, warnings, None) \<longrightarrow>
      snd (Set_apply atcConfig w version doc) =
        (if \<not> created \<and> \<not> updated then Panicked ''Something really went wrong!''
         else Returned None))"
  by (auto simp: showHelpfulMessage_def Set_apply_def case_prod_beta Let_def)

theorem showHelpfulMessage_outcomes_witness:
  "showHelpfulMessage sample_atc sample_world True True =
     ([Println ''configuration updated''], None) \<and>
   hd (fst (showHelpfulMessage sample_atc sample_world True False)) =
     Println ''pipeline created!'' \<and>
   snd (showHelpfulMessage sample_atc sample_world False False) \<noteq> None \<and>
   snd (ApplyConfigInteraction sample_atc neither_world) \<and>
   CreateOrUpdatePipelineConfig neither_world (PipelineName sample_atc) ''7''
     ''jobs: [{name: prod}]'' = (False, False, [], None) \<and>
   snd (Set_apply sample_atc neither_world ''7'' ''jobs: [{name: prod}]'') =
     Panicked ''Something really went wrong!'' \<and>
   snd (ApplyConfigInteraction sample_atc both_world) \<and>
   CreateOrUpdatePipelineConfig both_world (PipelineName sample_atc) ''7''
     ''jobs: [{name: prod}]'' = (True, True, [], None) \<and>
   snd (Set_apply sample_atc both_world ''7'' ''jobs: [{name: prod}]'') = Returned None"
proof -
  have a: "snd (ApplyConfigInteraction sample_atc neither_world)"
    and a': "snd (ApplyConfigInteraction sample_atc both_world)"
    by (simp_all add: ApplyConfigInteraction_def world_simps sample_simps)
  have p: "CreateOrUpdatePipelineConfig neither_world (PipelineName sample_atc) ''7''
      ''jobs: [{name: prod}]'' = (False, False, [], None)"
    and p': "CreateOrUpdatePipelineConfig both_world (PipelineName sample_atc) ''7''
      ''jobs: [{name: prod}]'' = (True, True, [], None)"
    by (simp_all add: world_simps sample_simps)
  note reported = showHelpfulMessage_outcomes
    [where atcConfig = sample_atc and w = sample_world and version = "''7''"
       and doc = "''jobs: [{name: prod}]''" and warnings = "[]"]
  note neither = showHelpfulMessage_outcomes
    [where atcConfig = sample_atc and w = neither_world and version = "''7''"
       and doc = "''jobs: [{name: prod}]''" and warnings = "[]"
       and created = False and updated = False]
  note both = showHelpfulMessage_outcomes
    [where atcConfig = sample_atc and w = both_world and version = "''7''"
       and doc = "''jobs: [{name: prod}]''" and warnings = "[]"
       and created = True and updated = True]
  from reported [of True True] reported [of True False] reported [of False False]
       neither both
  show ?thesis
    using a a' p p' by simp
qed

text \<open>
  Claim C10. With \<open>SkipInteraction\<close> set, \<^verbatim>\<open>ApplyConfigInteraction\<close> returns true and the
  prompt is not consulted. Without it the prompt is consulted: when the prompt fails the
  function returns false, so that \<^verbatim>\<open>Set\<close> bails out without a put, and otherwise it
  returns the answer of the prompt.
\<close>

theorem ApplyConfigInteraction_gate:
  "(SkipInteraction atcConfig \<longrightarrow> ApplyConfigInteraction atcConfig w = ([], True)) \<and>
   (\<not> SkipInteraction atcConfig \<longrightarrow>
      (\<forall>err. Resolve w ''apply configuration?'' = Inl err \<longrightarrow>
         ApplyConfigInteraction atcConfig w = ([Prompt ''apply configuration?''], False) \<and>
         Set_apply atcConfig w version doc =
           ([Prompt ''apply configuration?'', Confirmed False, Println ''bailing out''],
            Returned None)) \<and>
      (\<forall>confirm. Resolve w ''apply configuration?'' = Inr confirm \<longrightarrow>
         ApplyConfigInteraction atcConfig w = ([Prompt ''apply configuration?''], confirm)))"
  by (auto simp: ApplyConfigInteraction_def Set_apply_def)

theorem ApplyConfigInteraction_gate_witness:
  "SkipInteraction skipping_atc \<and>
   ApplyConfigInteraction skipping_atc silent_world = ([], True) \<and>
   \<not> SkipInteraction sample_atc \<and>
   Resolve silent_world ''apply configuration?'' = Inl (OtherError ''EOF'') \<and>
   ApplyConfigInteraction sample_atc silent_world = ([Prompt ''apply configuration?''], False) \<and>
   Set_apply sample_atc silent_world ''7'' ''jobs: [{name: prod}]'' =
     ([Prompt ''apply configuration?'', Confirmed False, Println ''bailing out''],
      Returned None) \<and>
   Resolve declining_world ''apply configuration?'' = Inr False \<and>
   ApplyConfigInteraction sample_atc declining_world =
     ([Prompt ''apply configuration?''], False)"
proof -
  have s: "SkipInteraction skipping_atc" and n: "\<not> SkipInteraction sample_atc"
    by (simp_all add: skipping_atc_def sample_atc_def)
  have r: "Resolve silent_world ''apply configuration?'' = Inl (OtherError ''EOF'')"
    and r': "Resolve declining_world ''apply configuration?'' = Inr False"
    by (simp_all add: world_simps sample_world_def)
  note skipped = ApplyConfigInteraction_gate
    [where atcConfig = skipping_atc and w = silent_world and version = "''7''"
       and doc = "''jobs: [{name: prod}]''"]
  note failed = ApplyConfigInteraction_gate
    [where atcConfig = sample_atc and w = silent_world and version = "''7''"
       and doc = "''jobs: [{name: prod}]''"]
  note answered = ApplyConfigInteraction_gate
    [where atcConfig = sample_atc and w = declining_world and version = "''7''"
       and doc = "''jobs: [{name: prod}]''"]
  from skipped s have 1: "ApplyConfigInteraction skipping_atc silent_world = ([], True)"
    by blast
  from failed n r
  have 2: "ApplyConfigInteraction sample_atc silent_world =
             ([Prompt ''apply configuration?''], False) \<and>
           Set_apply sample_atc silent_world ''7'' ''jobs: [{name: prod}]'' =
             ([Prompt ''apply configuration?'', Confirmed False, Println ''bailing out''],
              Returned None)"
    by blast
  from answered n r'
  have 3: "ApplyConfigInteraction sample_atc declining_world =
             ([Prompt ''apply configuration?''], False)"
    by blast
  from 1 2 3 s n r r' show ?thesis by blast
qed

section \<open>Documents without placeholders\<close>

text \<open>
  When the variable files decode and the document has no placeholder, \<^verbatim>\<open>resolveTemplates\<close>
  succeeds and returns what the template library makes of the document under the merged
  lookup. The file adds no change of its own to that document.
\<close>

lemma resolveTemplates_no_placeholders:
  assumes "map (unmarshalVars w) paramPayloads = map Inr Fs"
      and "placeholders w configPayload = []"
  shows "resolveTemplates w configPayload paramPayloads variables =
           Inr (interpolate w configPayload (MultiVars_Get (flagVars variables # rev Fs)))"
  unfolding resolveTemplates_def currentVars_decoded [OF assms(1)] template_Evaluate_def
  by (simp add: assms(2))

end
